theory Spec2Isabelle
  imports Complex_Main
begin

section \<open>JavaScript strings\<close>

text \<open>
  A JavaScript string is modelled as a \<open>string\<close>: a list of code units below 256.
  The character classes of the regular expressions and \<open>trim\<close> are the ECMAScript ones
  restricted to that range; case conversion covers the ASCII letters and the Latin-1
  letters whose counterpart is again below 256.
\<close>

definition ws_chars :: "char list" where
  "ws_chars = [CHR 0x09, CHR 0x0A, CHR 0x0B, CHR 0x0C, CHR 0x0D, CHR 0x20, CHR 0xA0]"

definition digit_chars :: "char list" where
  "digit_chars = ''0123456789''"

definition upper_chars :: "char list" where
  "upper_chars = ''ABCDEFGHIJKLMNOPQRSTUVWXYZ''"

definition lower_chars :: "char list" where
  "lower_chars = ''abcdefghijklmnopqrstuvwxyz''"

definition word_chars :: "char list" where
  "word_chars = lower_chars @ upper_chars @ digit_chars @ ''_''"

definition isSpace :: "char \<Rightarrow> bool" where
  "isSpace c = (c \<in> set ws_chars)"

definition isWordChar :: "char \<Rightarrow> bool" where
  "isWordChar c = (c \<in> set word_chars)"

definition latin1_upper :: "char list" where
  "latin1_upper =
     [CHR 0xC0, CHR 0xC1, CHR 0xC2, CHR 0xC3, CHR 0xC4, CHR 0xC5, CHR 0xC6, CHR 0xC7,
      CHR 0xC8, CHR 0xC9, CHR 0xCA, CHR 0xCB, CHR 0xCC, CHR 0xCD, CHR 0xCE, CHR 0xCF,
      CHR 0xD0, CHR 0xD1, CHR 0xD2, CHR 0xD3, CHR 0xD4, CHR 0xD5, CHR 0xD6,
      CHR 0xD8, CHR 0xD9, CHR 0xDA, CHR 0xDB, CHR 0xDC, CHR 0xDD, CHR 0xDE]"

definition latin1_lower :: "char list" where
  "latin1_lower =
     [CHR 0xE0, CHR 0xE1, CHR 0xE2, CHR 0xE3, CHR 0xE4, CHR 0xE5, CHR 0xE6, CHR 0xE7,
      CHR 0xE8, CHR 0xE9, CHR 0xEA, CHR 0xEB, CHR 0xEC, CHR 0xED, CHR 0xEE, CHR 0xEF,
      CHR 0xF0, CHR 0xF1, CHR 0xF2, CHR 0xF3, CHR 0xF4, CHR 0xF5, CHR 0xF6,
      CHR 0xF8, CHR 0xF9, CHR 0xFA, CHR 0xFB, CHR 0xFC, CHR 0xFD, CHR 0xFE]"

text \<open>Translation of one character along two tables of equal length.\<close>

fun translate :: "char list \<Rightarrow> char list \<Rightarrow> char \<Rightarrow> char" where
  "translate (a # as) (b # bs) c = (if c = a then b else translate as bs c)"
| "translate _ _ c = c"

definition lowerChar :: "char \<Rightarrow> char" where
  "lowerChar c = translate (upper_chars @ latin1_upper) (lower_chars @ latin1_lower) c"

text \<open>
  \<open>upperChar\<close> is the canonical form of a character under the \<open>i\<close> flag, which is
  the upper-case form when that is a single code unit. It leaves alone the three
  characters below 256 whose upper-case form is not a single code unit below 256 (0xB5,
  0xDF and 0xFF).
\<close>

definition upperChar :: "char \<Rightarrow> char" where
  "upperChar c = translate (lower_chars @ latin1_lower) (upper_chars @ latin1_upper) c"

text \<open>
  \<open>c.toUpperCase()\<close> for a string of one character: the sharp s (0xDF) becomes the two
  characters \<open>SS\<close>. The upper-case forms of 0xB5 and 0xFF lie above 255, where the
  strings of this model do not reach; the two are left as they are.
\<close>

definition toUpperCase1 :: "char \<Rightarrow> string" where
  "toUpperCase1 c = (if c = CHR 0xDF then ''SS'' else [upperChar c])"

definition toLowerCase :: "string \<Rightarrow> string" where
  "toLowerCase s = map lowerChar s"

definition trim :: "string \<Rightarrow> string" where
  "trim s = rev (dropWhile isSpace (rev (dropWhile isSpace s)))"

text \<open>\<open>s.includes(sub)\<close>: \<open>sub\<close> occurs somewhere in \<open>s\<close>.\<close>

fun startsWith :: "string \<Rightarrow> string \<Rightarrow> bool" where
  "startsWith s [] = True"
| "startsWith [] (d # ds) = False"
| "startsWith (c # cs) (d # ds) = (c = d \<and> startsWith cs ds)"

fun strIncludes :: "string \<Rightarrow> string \<Rightarrow> bool" where
  "strIncludes [] sub = (sub = [])"
| "strIncludes (c # cs) sub = (startsWith (c # cs) sub \<or> strIncludes cs sub)"

text \<open>\<open>s.split(sep)\<close> for a one-character separator string.\<close>

fun splitChar :: "char \<Rightarrow> string \<Rightarrow> string \<Rightarrow> string list" where
  "splitChar sep cur [] = [rev cur]"
| "splitChar sep cur (c # cs) =
     (if c = sep then rev cur # splitChar sep [] cs else splitChar sep (c # cur) cs)"

text \<open>\<open>xs.join(' ')\<close>\<close>

fun joinSpace :: "string list \<Rightarrow> string" where
  "joinSpace [] = []"
| "joinSpace [x] = x"
| "joinSpace (x # y # ys) = x @ '' '' @ joinSpace (y # ys)"

text \<open>Decimal rendering of a number inside a template literal.\<close>

definition digitChar :: "nat \<Rightarrow> char" where
  "digitChar d = digit_chars ! d"

fun showNat :: "nat \<Rightarrow> string" where
  "showNat n = (if n < 10 then [digitChar n] else showNat (n div 10) @ [digitChar (n mod 10)])"

declare showNat.simps [simp del]

section \<open>Regular expressions\<close>

text \<open>
  The regular expressions of the source are transcribed into the syntax tree \<open>rx\<close> and
  run by a backtracking matcher that lists the possible end states of a match in the
  priority order of ECMAScript (first alternative first, greedy repetition). A matcher
  state is the character before the current position (none at the start of the input)
  and the rest of the input.
\<close>

datatype rx =
    Eps
  | Chr char
  | Cls "char list"
  | NCls "char list"
  | Seq rx rx
  | Alt rx rx
  | Star rx
  | Bol
  | Eol
  | WordB

type_synonym mstate = "char option \<times> string"

fun stepIf :: "(char \<Rightarrow> bool) \<Rightarrow> mstate \<Rightarrow> mstate list" where
  "stepIf P (p, []) = []"
| "stepIf P (p, c # cs) = (if P c then [(Some c, cs)] else [])"

primrec starIter :: "(mstate \<Rightarrow> mstate list) \<Rightarrow> nat \<Rightarrow> mstate \<Rightarrow> mstate list" where
  "starIter f 0 st = [st]"
| "starIter f (Suc n) st =
     concat (map (starIter f n) (filter (\<lambda>st'. length (snd st') < length (snd st)) (f st))) @ [st]"

definition prevIsWord :: "char option \<Rightarrow> bool" where
  "prevIsWord p = (case p of None \<Rightarrow> False | Some c \<Rightarrow> isWordChar c)"

definition nextIsWord :: "string \<Rightarrow> bool" where
  "nextIsWord s = (case s of [] \<Rightarrow> False | c # _ \<Rightarrow> isWordChar c)"

text \<open>
  \<open>rxm ci r\<close> matches \<open>r\<close> at the current position; \<open>ci\<close> is the \<open>i\<close> flag. Under
  it a pattern character and an input character match when their upper-case forms agree.
  The classes of the patterns that carry the flag hold white space only, which has no case.
  A repetition admits at most as many iterations as characters are left, since an
  iteration that consumes nothing is rejected.
\<close>

primrec rxm :: "bool \<Rightarrow> rx \<Rightarrow> mstate \<Rightarrow> mstate list" where
  "rxm ci Eps = (\<lambda>st. [st])"
| "rxm ci (Chr c) = stepIf (\<lambda>d. if ci then upperChar d = upperChar c else d = c)"
| "rxm ci (Cls cs) = stepIf (\<lambda>d. d \<in> set cs)"
| "rxm ci (NCls cs) = stepIf (\<lambda>d. d \<notin> set cs)"
| "rxm ci (Seq a b) = (\<lambda>st. concat (map (rxm ci b) (rxm ci a st)))"
| "rxm ci (Alt a b) = (\<lambda>st. rxm ci a st @ rxm ci b st)"
| "rxm ci (Star a) = (\<lambda>st. starIter (rxm ci a) (length (snd st)) st)"
| "rxm ci Bol = (\<lambda>st. if fst st = None then [st] else [])"
| "rxm ci Eol = (\<lambda>st. if snd st = [] then [st] else [])"
| "rxm ci WordB = (\<lambda>st. if prevIsWord (fst st) \<noteq> nextIsWord (snd st) then [st] else [])"

text \<open>
  \<open>rxFind\<close> is the search of \<open>RegExp.prototype.exec\<close> without the sticky flag: the
  leftmost position with a match, and there the match of highest priority. It returns
  the start index and the length of the match.
\<close>

fun rxFind :: "bool \<Rightarrow> rx \<Rightarrow> char option \<Rightarrow> string \<Rightarrow> nat \<Rightarrow> (nat \<times> nat) option" where
  "rxFind ci r p [] k =
     (case rxm ci r (p, []) of [] \<Rightarrow> None | e # _ \<Rightarrow> Some (k, 0))"
| "rxFind ci r p (c # cs) k =
     (case rxm ci r (p, c # cs) of
        [] \<Rightarrow> rxFind ci r (Some c) cs (Suc k)
      | e # _ \<Rightarrow> Some (k, Suc (length cs) - length (snd e)))"

definition rxTest :: "bool \<Rightarrow> rx \<Rightarrow> string \<Rightarrow> bool" where
  "rxTest ci r s = (rxFind ci r None s 0 \<noteq> None)"

text \<open>\<open>s.match(r)\<close> without the global flag: element 0 of the result, or none.\<close>

definition rxMatch0 :: "bool \<Rightarrow> rx \<Rightarrow> string \<Rightarrow> string option" where
  "rxMatch0 ci r s =
     (case rxFind ci r None s 0 of None \<Rightarrow> None | Some (k, n) \<Rightarrow> Some (take n (drop k s)))"

text \<open>\<open>s.replace(r, '')\<close> without the global flag: the first match is removed.\<close>

definition rxRemoveFirst :: "bool \<Rightarrow> rx \<Rightarrow> string \<Rightarrow> string" where
  "rxRemoveFirst ci r s =
     (case rxFind ci r None s 0 of None \<Rightarrow> s | Some (k, n) \<Rightarrow> take k s @ drop (k + n) s)"


text \<open>The character before the position reached after reading \<open>u\<close> from a position whose
  previous character is \<open>q\<close>.\<close>

definition prevAfter :: "char option \<Rightarrow> string \<Rightarrow> char option" where
  "prevAfter q u = (if u = [] then q else Some (last u))"

text \<open>\<open>s.split(r)\<close> with a regular expression separator, no limit and no capture groups.\<close>

fun rxSplitLoop :: "bool \<Rightarrow> rx \<Rightarrow> string \<Rightarrow> char option \<Rightarrow> string \<Rightarrow> string list" where
  "rxSplitLoop ci r cur p [] = [rev cur]"
| "rxSplitLoop ci r cur p (c # cs) =
     (case rxm ci r (p, c # cs) of
        [] \<Rightarrow> rxSplitLoop ci r (c # cur) (Some c) cs
      | e # _ \<Rightarrow>
          if length (snd e) < Suc (length cs)
          then rev cur # rxSplitLoop ci r [] (fst e) (snd e)
          else if cur = [] then rxSplitLoop ci r [c] (Some c) cs
          else rev cur # rxSplitLoop ci r [c] (Some c) cs)"

definition rxSplit :: "bool \<Rightarrow> rx \<Rightarrow> string \<Rightarrow> string list" where
  "rxSplit ci r s =
     (if s = [] then (if rxm ci r (None, []) = [] then [[]] else [])
      else rxSplitLoop ci r [] None s)"

text \<open>\<open>s.replace(r, f)\<close> with the global flag; \<open>f\<close> maps a match to its replacement.\<close>

fun rxReplaceAll :: "bool \<Rightarrow> rx \<Rightarrow> (string \<Rightarrow> string) \<Rightarrow> char option \<Rightarrow> string \<Rightarrow> string" where
  "rxReplaceAll ci r f p [] = (case rxm ci r (p, []) of [] \<Rightarrow> [] | e # _ \<Rightarrow> f [])"
| "rxReplaceAll ci r f p (c # cs) =
     (case rxm ci r (p, c # cs) of
        [] \<Rightarrow> c # rxReplaceAll ci r f (Some c) cs
      | e # _ \<Rightarrow>
          if length (snd e) < Suc (length cs)
          then f (take (Suc (length cs) - length (snd e)) (c # cs)) @ rxReplaceAll ci r f (fst e) (snd e)
          else f [] @ c # rxReplaceAll ci r f (Some c) cs)"

subsection \<open>Building blocks of the patterns\<close>

definition lit :: "string \<Rightarrow> rx" where
  "lit s = foldr (\<lambda>c r. Seq (Chr c) r) s Eps"

fun alts :: "rx list \<Rightarrow> rx" where
  "alts [] = Eps"
| "alts [r] = r"
| "alts (r # r' # rs) = Alt r (alts (r' # rs))"

fun seqs :: "rx list \<Rightarrow> rx" where
  "seqs [] = Eps"
| "seqs [r] = r"
| "seqs (r # r' # rs) = Seq r (seqs (r' # rs))"

definition opt :: "rx \<Rightarrow> rx" where
  "opt r = Alt r Eps"

text \<open>\<open>r{n,}\<close> and \<open>r{lo,hi}\<close>\<close>

primrec repMin :: "nat \<Rightarrow> rx \<Rightarrow> rx" where
  "repMin 0 r = Star r"
| "repMin (Suc n) r = Seq r (repMin n r)"

primrec repUpTo :: "nat \<Rightarrow> rx \<Rightarrow> rx" where
  "repUpTo 0 r = Eps"
| "repUpTo (Suc n) r = opt (Seq r (repUpTo n r))"

primrec repExact :: "nat \<Rightarrow> rx \<Rightarrow> rx" where
  "repExact 0 r = Eps"
| "repExact (Suc n) r = Seq r (repExact n r)"

definition repRange :: "nat \<Rightarrow> nat \<Rightarrow> rx \<Rightarrow> rx" where
  "repRange lo hi r = Seq (repExact lo r) (repUpTo (hi - lo) r)"

text \<open>
  A keyword phrase such as \<open>full\s*name\<close> is given by its words, which \<open>\s*\<close> joins;
  \<open>keywordRx\<close> is \<open>\b(p1|p2|...)\b\<close>.
\<close>

fun phrase :: "string list \<Rightarrow> rx" where
  "phrase [] = Eps"
| "phrase [w] = lit w"
| "phrase (w # w' # ws) = Seq (lit w) (Seq (Star (Cls ws_chars)) (phrase (w' # ws)))"

definition keywordRx :: "string list list \<Rightarrow> rx" where
  "keywordRx ps = Seq WordB (Seq (alts (map phrase ps)) WordB)"


section \<open>Data model\<close>

datatype error =
    TypeError
  | OcrFailed
  | PdfParseFailed
  | UnsupportedFileType
  | PdfGenerationFailed
  | EncodingError

text \<open>The field types are the keys of \<open>fieldPatterns\<close> in \<open>detectFormFields\<close>.\<close>

datatype fieldType =
    Name | Email | Phone | Address | Date | Ssn | Gender | Age | Grade | School
  | Parent | Occupation | Income | Religion | Nationality | Signature | Checkbox | Text

record coordinates =
  coordX :: real
  coordY :: real
  coordWidth :: real
  coordHeight :: real
  inputX :: real
  inputY :: real

text \<open>
  A form field as the extractor builds it. \<open>fid\<close>, \<open>ftype\<close> and \<open>fvalue\<close> are the
  properties \<open>id\<close>, \<open>type\<close> and \<open>value\<close> of the source (\<open>value\<close> is always \<open>null\<close>
  at extraction); \<open>position\<close> and \<open>pdfFieldName\<close> are absent from some of the object
  literals of the source. In a schema, \<open>schemaFields\<close> is the property \<open>fields\<close>.
\<close>

record formField =
  fid :: string
  label :: string
  ftype :: fieldType
  required :: bool
  fvalue :: "string option"
  position :: "nat option"
  coordinates :: "coordinates option"
  pdfFieldName :: "string option"

record bbox =
  bx0 :: real
  by0 :: real
  bx1 :: real
  by1 :: real

record wordBox =
  wtext :: string
  wbbox :: bbox

text \<open>
  What \<open>findCoordinatesForLabel\<close> may find in its \<open>words\<close> array: a recognised word
  of the OCR, or a plain string (the secondary pass of \<open>detectFormFields\<close> passes the
  pieces of \<open>line.split(/\s+/)\<close>, its local \<open>words\<close>).
\<close>

datatype jsword = OcrWord wordBox | StrWord string

record formSchema =
  extractedText :: string
  schemaFields :: "formField list"
  totalFields :: nat
  imageWidth :: "real option"
  imageHeight :: "real option"
  isPDFForm :: bool

section \<open>Field detection (ocrService.js)\<close>

definition namePattern :: rx where
  "namePattern = keywordRx
     [[''name''], [''full'', ''name''], [''first'', ''name''], [''last'', ''name''],
      [''middle'', ''name''], [''applicant'', ''name''], [''student'', ''name''],
      [''parent'', ''name''], [''guardian'', ''name''], [''surname''], [''given'', ''name'']]"

definition emailPattern :: rx where
  "emailPattern = keywordRx
     [[''email''], [''e-mail''], [''email'', ''address''], [''electronic'', ''mail'']]"

definition phonePattern :: rx where
  "phonePattern = keywordRx
     [[''phone''], [''telephone''], [''mobile''], [''cell''], [''contact'', ''number''],
      [''phone'', ''number''], [''tel''], [''contact'', ''no'']]"

definition addressPattern :: rx where
  "addressPattern = keywordRx
     [[''address''], [''street''], [''residence''], [''location''], [''city''], [''state''],
      [''province''], [''zip''], [''postal'', ''code''], [''country''], [''pin'', ''code'']]"

definition datePattern :: rx where
  "datePattern = keywordRx
     [[''date''], [''dob''], [''birth'', ''date''], [''date'', ''of'', ''birth''],
      [''admission'', ''date''], [''enrollment'', ''date''], [''year''], [''month''], [''day'']]"

definition ssnPattern :: rx where
  "ssnPattern = keywordRx
     [[''ssn''], [''social'', ''security''], [''tax'', ''id''], [''national'', ''id''],
      [''id'', ''number''], [''identification'']]"

definition genderPattern :: rx where
  "genderPattern = keywordRx
     [[''gender''], [''sex''], [''male''], [''female'']]"

definition agePattern :: rx where
  "agePattern = keywordRx
     [[''age''], [''years'', ''old'']]"

definition gradePattern :: rx where
  "gradePattern = keywordRx
     [[''grade''], [''class''], [''standard''], [''level''], [''year'']]"

definition schoolPattern :: rx where
  "schoolPattern = keywordRx
     [[''school''], [''institution''], [''college''], [''university''],
      [''previous'', ''school'']]"

definition parentPattern :: rx where
  "parentPattern = keywordRx
     [[''parent''], [''father''], [''mother''], [''guardian''], [''emergency'', ''contact'']]"

definition occupationPattern :: rx where
  "occupationPattern = keywordRx
     [[''occupation''], [''profession''], [''job''], [''employment''], [''work'']]"

definition incomePattern :: rx where
  "incomePattern = keywordRx
     [[''income''], [''salary''], [''annual'', ''income'']]"

definition religionPattern :: rx where
  "religionPattern = keywordRx
     [[''religion''], [''caste''], [''category'']]"

definition nationalityPattern :: rx where
  "nationalityPattern = keywordRx
     [[''nationality''], [''citizenship''], [''country'', ''of'', ''origin'']]"

definition signaturePattern :: rx where
  "signaturePattern = keywordRx
     [[''signature''], [''sign'', ''here''], [''applicant'', ''signature''],
      [''parent'', ''signature'']]"

definition checkboxPattern :: rx where
  "checkboxPattern = keywordRx
     [[''check''], [''select''], [''tick''], [''mark''], [''yes''], [''no''], [''agree''],
      [''consent'']]"

definition textPattern :: rx where
  "textPattern = keywordRx
     [[''describe''], [''explain''], [''provide''], [''enter''], [''write''], [''details''],
      [''information''], [''remarks''], [''comments'']]"

definition fieldPatterns :: "(fieldType \<times> rx) list" where
  "fieldPatterns =
     [(Name, namePattern),
      (Email, emailPattern),
      (Phone, phonePattern),
      (Address, addressPattern),
      (Date, datePattern),
      (Ssn, ssnPattern),
      (Gender, genderPattern),
      (Age, agePattern),
      (Grade, gradePattern),
      (School, schoolPattern),
      (Parent, parentPattern),
      (Occupation, occupationPattern),
      (Income, incomePattern),
      (Religion, religionPattern),
      (Nationality, nationalityPattern),
      (Signature, signaturePattern),
      (Checkbox, checkboxPattern),
      (Text, textPattern)]"

text \<open>
  \<open>/[:_\[\]()\.\s{2,}]/\<close>: one character class. Inside the brackets \<open>\s{2,}\<close> is the
  class \<open>\s\<close> followed by the four characters \<open>{\<close>, \<open>2\<close>, \<open>,\<close> and \<open>}\<close>.
\<close>

definition indicatorChars :: "char list" where
  "indicatorChars = '':_[]().'' @ ws_chars @ ''{2,}''"

definition indicatorRx :: rx where
  "indicatorRx = Cls indicatorChars"

text \<open>\<open>/[:\-_\.]{1,}$/\<close>, \<open>/_{3,}/\<close> and \<open>/\.{3,}/\<close>\<close>

definition endingChars :: "char list" where
  "endingChars = '':-_.''"

definition endingRx :: rx where
  "endingRx = Seq (repMin 1 (Cls endingChars)) Eol"

definition underscoresRx :: rx where
  "underscoresRx = repMin 3 (Chr CHR ''_'')"

definition dotsRx :: rx where
  "dotsRx = repMin 3 (Chr CHR ''.'')"

text \<open>\<open>/^[\d\.\-\)]+\s*/\<close> and \<open>/\*+$/\<close>\<close>

definition numberingRx :: rx where
  "numberingRx = Seq Bol (Seq (repMin 1 (Cls (digit_chars @ ''.-)''))) (Star (Cls ws_chars)))"

definition asterisksRx :: rx where
  "asterisksRx = Seq (repMin 1 (Chr CHR ''*'')) Eol"

text \<open>\<open>/^(section|part|...|were)$/i\<close>\<close>

definition skipWords :: rx where
  "skipWords = Seq Bol (Seq (alts (map lit
     [''section'', ''part'', ''page'', ''form'', ''instructions'', ''note'', ''please'', ''kindly'',
      ''total'', ''subtotal'', ''amount'', ''the'', ''and'', ''or'', ''for'', ''to'', ''in'', ''of'',
      ''is'', ''are'', ''was'', ''were''])) Eol)"

text \<open>\<open>/optional|if\s*applicable/i\<close>\<close>

definition optionalRx :: rx where
  "optionalRx = Alt (lit ''optional'') (phrase [''if'', ''applicable''])"

text \<open>\<open>/[:\-_\.\*]+$/\<close> and \<open>/\s+/\<close>\<close>

definition trailingRx :: rx where
  "trailingRx = Seq (repMin 1 (Cls '':-_.*'')) Eol"

definition spacesRx :: rx where
  "spacesRx = repMin 1 (Cls ws_chars)"

subsection \<open>findCoordinatesForLabel\<close>

text \<open>
  \<open>labelWords.some(lw => word.text.toLowerCase().includes(lw))\<close>. For a plain string
  \<open>word.text\<close> is \<open>undefined\<close>, and the first call of the callback throws a TypeError.
\<close>

fun someIncludes :: "string list \<Rightarrow> jsword \<Rightarrow> error + bool" where
  "someIncludes [] w = Inr False"
| "someIncludes (lw # lws) (StrWord s) = Inl TypeError"
| "someIncludes (lw # lws) (OcrWord w) =
     (if strIncludes (toLowerCase (wtext w)) lw then Inr True else someIncludes lws (OcrWord w))"

definition coordinatesOf :: "wordBox \<Rightarrow> coordinates" where
  "coordinatesOf w =
     \<lparr> coordX = bx0 (wbbox w), coordY = by0 (wbbox w),
       coordWidth = bx1 (wbbox w) - bx0 (wbbox w),
       coordHeight = by1 (wbbox w) - by0 (wbbox w),
       inputX = bx1 (wbbox w) + 10, inputY = by0 (wbbox w) \<rparr>"

fun findCoordinatesLoop :: "string list \<Rightarrow> jsword list \<Rightarrow> error + coordinates option" where
  "findCoordinatesLoop labelWords [] = Inr None"
| "findCoordinatesLoop labelWords (word # rest) =
     (case someIncludes labelWords word of
        Inl e \<Rightarrow> Inl e
      | Inr hit \<Rightarrow>
          if hit then (case word of OcrWord w \<Rightarrow> Inr (Some (coordinatesOf w)) | StrWord s \<Rightarrow> Inl TypeError)
          else findCoordinatesLoop labelWords rest)"

definition findCoordinatesForLabel :: "string \<Rightarrow> jsword list \<Rightarrow> error + coordinates option" where
  "findCoordinatesForLabel lbl words =
     (if words = [] then Inr None
      else findCoordinatesLoop (rxSplit False spacesRx (toLowerCase lbl)) words)"

subsection \<open>detectFormFields\<close>

text \<open>The two variables the passes update: \<open>fields\<close> and the set \<open>foundFields\<close>.\<close>

record detectState =
  dfields :: "formField list"
  foundFields :: "string list"

definition pushField :: "formField \<Rightarrow> string \<Rightarrow> detectState \<Rightarrow> detectState" where
  "pushField f lbl st =
     st\<lparr> dfields := dfields st @ [f], foundFields := foundFields st @ [toLowerCase lbl] \<rparr>"

definition nextId :: "detectState \<Rightarrow> string" where
  "nextId st = ''field_'' @ showNat (length (dfields st) + 1)"

text \<open>The loop over \<open>Object.entries(fieldPatterns)\<close> of the primary pass.\<close>

definition classify :: "string \<Rightarrow> string \<Rightarrow> fieldType" where
  "classify lbl line =
     (case find (\<lambda>tp. rxTest True (snd tp) lbl \<or> rxTest True (snd tp) line) fieldPatterns of
        None \<Rightarrow> Text
      | Some tp \<Rightarrow> fst tp)"

definition hasFieldIndicator :: "string \<Rightarrow> bool" where
  "hasFieldIndicator line = rxTest False indicatorRx line"

definition hasFieldEnding :: "string \<Rightarrow> bool" where
  "hasFieldEnding line =
     (rxTest False endingRx line \<or> rxTest False underscoresRx line \<or> rxTest False dotsRx line)"

text \<open>
  One call of the callback of the first \<open>lines.forEach\<close> (strategy 1). \<open>split(...)[0]\<close>
  of an empty array is \<open>undefined\<close>, whose \<open>trim\<close> throws.
\<close>

definition strategy1Step :: "jsword list \<Rightarrow> string \<Rightarrow> nat \<Rightarrow> detectState \<Rightarrow> error + detectState" where
  "strategy1Step words line index st =
     (if length line < 2 \<or> length line > 150 then Inr st
      else if hasFieldIndicator line \<or> hasFieldEnding line then
        (case rxSplit False indicatorRx line of
           [] \<Rightarrow> Inl TypeError
         | piece # _ \<Rightarrow>
             let label0 = trim piece;
                 label1 = rxRemoveFirst False numberingRx label0;
                 lbl = rxRemoveFirst False asterisksRx label1
             in if length lbl < 2 \<or> length lbl > 80 \<or> toLowerCase lbl \<in> set (foundFields st)
                then Inr st
                else if rxTest True skipWords lbl then Inr st
                else
                  (case findCoordinatesForLabel lbl words of
                     Inl e \<Rightarrow> Inl e
                   | Inr coords \<Rightarrow>
                       Inr (pushField
                         \<lparr> fid = nextId st, label = lbl, ftype = classify lbl line,
                           required = (\<not> rxTest True optionalRx line), fvalue = None,
                           position = Some index, coordinates = coords, pdfFieldName = None \<rparr>
                         lbl st)))
      else Inr st)"

fun strategy1 :: "jsword list \<Rightarrow> string list \<Rightarrow> nat \<Rightarrow> detectState \<Rightarrow> error + detectState" where
  "strategy1 words [] index st = Inr st"
| "strategy1 words (line # rest) index st =
     (case strategy1Step words line index st of
        Inl e \<Rightarrow> Inl e
      | Inr st' \<Rightarrow> strategy1 words rest (Suc index) st')"

text \<open>\<open>words.findIndex(w => pattern.test(w))\<close>, \<open>-1\<close> being \<open>None\<close>.\<close>

fun findIndex :: "('a \<Rightarrow> bool) \<Rightarrow> 'a list \<Rightarrow> nat option" where
  "findIndex P [] = None"
| "findIndex P (x # xs) =
     (if P x then Some 0 else (case findIndex P xs of None \<Rightarrow> None | Some i \<Rightarrow> Some (Suc i)))"

text \<open>
  The label of the secondary pass: the match, or up to three words from the first word
  that matches the pattern when that word is not the last one; then cleaned.
\<close>

definition strategy2Label :: "rx \<Rightarrow> string \<Rightarrow> string \<Rightarrow> string list \<Rightarrow> string" where
  "strategy2Label pattern line m0 lineWords =
     (let label0 = trim m0;
          label1 = (case findIndex (rxTest True pattern) lineWords of
                      None \<Rightarrow> label0
                    | Some matchIndex \<Rightarrow>
                        if matchIndex < length lineWords - 1
                        then joinSpace (take (min (matchIndex + 3) (length lineWords) - matchIndex)
                                          (drop matchIndex lineWords))
                        else label0)
      in trim (rxRemoveFirst False trailingRx label1))"

text \<open>
  The loop over the patterns for one line of the second \<open>lines.forEach\<close> (strategy 2).
  The \<open>words\<close> handed to \<open>findCoordinatesForLabel\<close> is the local constant of the block,
  the pieces of the line, not the parameter of \<open>detectFormFields\<close>.
\<close>

fun strategy2Patterns ::
  "(fieldType \<times> rx) list \<Rightarrow> string \<Rightarrow> nat \<Rightarrow> detectState \<Rightarrow> error + detectState" where
  "strategy2Patterns [] line index st = Inr st"
| "strategy2Patterns (tp # rest) line index st =
     (if rxTest True (snd tp) line then
        (case rxMatch0 True (snd tp) line of
           None \<Rightarrow> strategy2Patterns rest line index st
         | Some m0 \<Rightarrow>
             let lineWords = rxSplit False spacesRx line;
                 lbl = strategy2Label (snd tp) line m0 lineWords
             in if length lbl \<ge> 2 \<and> toLowerCase lbl \<notin> set (foundFields st)
                then
                  (case findCoordinatesForLabel lbl (map StrWord lineWords) of
                     Inl e \<Rightarrow> Inl e
                   | Inr coords \<Rightarrow>
                       Inr (pushField
                         \<lparr> fid = nextId st, label = lbl, ftype = fst tp,
                           required = (fst tp \<noteq> Text), fvalue = None,
                           position = Some index, coordinates = coords, pdfFieldName = None \<rparr>
                         lbl st))
                else strategy2Patterns rest line index st)
      else strategy2Patterns rest line index st)"

definition strategy2Step :: "string \<Rightarrow> nat \<Rightarrow> detectState \<Rightarrow> error + detectState" where
  "strategy2Step line index st =
     (if length line < 3 \<or> length line > 100 then Inr st
      else strategy2Patterns fieldPatterns line index st)"

fun strategy2 :: "string list \<Rightarrow> nat \<Rightarrow> detectState \<Rightarrow> error + detectState" where
  "strategy2 [] index st = Inr st"
| "strategy2 (line # rest) index st =
     (case strategy2Step line index st of
        Inl e \<Rightarrow> Inl e
      | Inr st' \<Rightarrow> strategy2 rest (Suc index) st')"

definition textLines :: "string \<Rightarrow> string list" where
  "textLines txt = filter (\<lambda>line. length line > 0) (map trim (splitChar CHR 0x0A [] txt))"

text \<open>The two detection passes: everything before the test \<open>fields.length === 0\<close>.\<close>

definition detectPasses :: "string \<Rightarrow> wordBox list \<Rightarrow> error + formField list" where
  "detectPasses txt words =
     (let lines = textLines txt in
      case strategy1 (map OcrWord words) lines 0 \<lparr> dfields = [], foundFields = [] \<rparr> of
        Inl e \<Rightarrow> Inl e
      | Inr st1 \<Rightarrow>
          if length (dfields st1) < 5
          then (case strategy2 lines 0 st1 of Inl e \<Rightarrow> Inl e | Inr st2 \<Rightarrow> Inr (dfields st2))
          else Inr (dfields st1))"

definition genericField :: "string \<Rightarrow> string \<Rightarrow> fieldType \<Rightarrow> bool \<Rightarrow> formField" where
  "genericField i l t r =
     \<lparr> fid = i, label = l, ftype = t, required = r, fvalue = None,
       position = None, coordinates = None, pdfFieldName = None \<rparr>"

definition genericFields :: "formField list" where
  "genericFields =
     [genericField ''field_1'' ''Full Name'' Name True,
      genericField ''field_2'' ''Email Address'' Email True,
      genericField ''field_3'' ''Phone Number'' Phone True,
      genericField ''field_4'' ''Address'' Address False,
      genericField ''field_5'' ''Date'' Date True]"

definition detectFormFields :: "string \<Rightarrow> wordBox list \<Rightarrow> error + formField list" where
  "detectFormFields txt words =
     (case detectPasses txt words of
        Inl e \<Rightarrow> Inl e
      | Inr fs \<Rightarrow> if length fs = 0 then Inr genericFields else Inr fs)"


section \<open>Field validation (ocrService.js)\<close>

record validation =
  valid :: bool
  message :: string

text \<open>\<open>/^[^\s@]+@[^\s@]+\.[^\s@]+$/\<close>\<close>

definition emailValidation :: rx where
  "emailValidation =
     seqs [Bol, repMin 1 (NCls (ws_chars @ ''@'')), Chr CHR ''@'', repMin 1 (NCls (ws_chars @ ''@'')),
           Chr CHR ''.'', repMin 1 (NCls (ws_chars @ ''@'')), Eol]"

text \<open>\<open>/^[\d\s\-\+\(\)]{10,}$/\<close>\<close>

definition phoneChars :: "char list" where
  "phoneChars = digit_chars @ ws_chars @ ''-+()''"

definition phoneValidation :: rx where
  "phoneValidation = seqs [Bol, repMin 10 (Cls phoneChars), Eol]"

text \<open>\<open>/^\d{1,2}[\/\-]\d{1,2}[\/\-]\d{2,4}$/\<close>\<close>

definition dateValidation :: rx where
  "dateValidation =
     seqs [Bol, repRange 1 2 (Cls digit_chars), Cls ''/-'', repRange 1 2 (Cls digit_chars),
           Cls ''/-'', repRange 2 4 (Cls digit_chars), Eol]"

text \<open>\<open>/^\d{3}-?\d{2}-?\d{4}$/\<close>\<close>

definition ssnValidation :: rx where
  "ssnValidation =
     seqs [Bol, repExact 3 (Cls digit_chars), opt (Chr CHR ''-''), repExact 2 (Cls digit_chars),
           opt (Chr CHR ''-''), repExact 4 (Cls digit_chars), Eol]"

text \<open>The table \<open>validations\<close>: a pattern and a message for four of the types.\<close>

fun validations :: "fieldType \<Rightarrow> (rx \<times> string) option" where
  "validations Email = Some (emailValidation, ''Please provide a valid email address'')"
| "validations Phone =
     Some (phoneValidation, ''Please provide a valid phone number (at least 10 digits)'')"
| "validations Date =
     Some (dateValidation, ''Please provide a date in format MM/DD/YYYY or DD-MM-YYYY'')"
| "validations Ssn = Some (ssnValidation, ''Please provide a valid SSN (XXX-XX-XXXX)'')"
| "validations _ = None"

definition validateFieldValue :: "fieldType \<Rightarrow> string \<Rightarrow> validation" where
  "validateFieldValue t v =
     (if v = [] \<or> length (trim v) = 0
      then \<lparr> valid = False, message = ''This field cannot be empty'' \<rparr>
      else (case validations t of
              Some pm \<Rightarrow>
                if \<not> rxTest False (fst pm) v then \<lparr> valid = False, message = snd pm \<rparr>
                else \<lparr> valid = True, message = ''Valid'' \<rparr>
            | None \<Rightarrow> \<lparr> valid = True, message = ''Valid'' \<rparr>))"

section \<open>Native PDF form fields and processForm (ocrService.js)\<close>

text \<open>
  What \<open>form.getFields()\<close> of the PDF library exposes of a control: its name, the name
  of its class, its options, and what has been written into it.
\<close>

datatype controlKind = PDFTextField | PDFCheckBox | PDFRadioGroup | PDFDropdown | PDFOtherField

record pdfControl =
  ctlName :: string
  ctlKind :: controlKind
  ctlOptions :: "string list"
  ctlText :: "string option"
  ctlChecked :: bool
  ctlSelected :: "string option"

text \<open>The chain of tests on the lower-cased name of a text control.\<close>

definition inferTextFieldType :: "string \<Rightarrow> fieldType" where
  "inferTextFieldType nameLower =
     (if rxTest False (Alt (lit ''email'') (lit ''e-mail'')) nameLower then Email
      else if rxTest False (alts [lit ''phone'', lit ''tel'', lit ''mobile'']) nameLower then Phone
      else if rxTest False (alts [lit ''date'', lit ''dob'', lit ''birth'']) nameLower then Date
      else if rxTest False (lit ''name'') nameLower then Name
      else if rxTest False
                (alts [lit ''address'', lit ''street'', lit ''city'', lit ''state'', lit ''zip''])
                nameLower then Address
      else Text)"

definition controlType :: "pdfControl \<Rightarrow> fieldType" where
  "controlType c =
     (case ctlKind c of
        PDFCheckBox \<Rightarrow> Checkbox
      | PDFRadioGroup \<Rightarrow> Checkbox
      | PDFDropdown \<Rightarrow> Text
      | PDFTextField \<Rightarrow> inferTextFieldType (toLowerCase (ctlName c))
      | PDFOtherField \<Rightarrow> Text)"

text \<open>
  The display label: a space before every capital letter, underscores to spaces, runs of
  white space to one space, trimmed, first letter in upper case.
\<close>

definition controlLabel :: "string \<Rightarrow> string" where
  "controlLabel fieldName =
     (let l1 = rxReplaceAll False (Cls upper_chars) (\<lambda>m. '' '' @ m) None fieldName;
          l2 = rxReplaceAll False (Chr CHR ''_'') (\<lambda>m. '' '') None l1;
          l3 = rxReplaceAll False spacesRx (\<lambda>m. '' '') None l2;
          l4 = trim l3
      in (case l4 of [] \<Rightarrow> [] | c # cs \<Rightarrow> toUpperCase1 c @ cs))"

definition nativeField :: "nat \<Rightarrow> pdfControl \<Rightarrow> formField" where
  "nativeField index c =
     \<lparr> fid = ''field_'' @ showNat (index + 1), label = controlLabel (ctlName c),
       ftype = controlType c, required = True, fvalue = None, position = Some index,
       coordinates = None, pdfFieldName = Some (ctlName c) \<rparr>"

text \<open>\<open>formFields.map((field, index) => ...)\<close>\<close>

fun mapIndexed :: "(nat \<Rightarrow> 'a \<Rightarrow> 'b) \<Rightarrow> nat \<Rightarrow> 'a list \<Rightarrow> 'b list" where
  "mapIndexed f i [] = []"
| "mapIndexed f i (x # xs) = f i x # mapIndexed f (Suc i) xs"

text \<open>
  \<open>extractPDFFormFields\<close>: the argument is the outcome of loading the document and
  listing its controls; a failure there is caught and gives \<open>null\<close>.
\<close>

definition extractPDFFormFields :: "error + pdfControl list \<Rightarrow> formField list option" where
  "extractPDFFormFields loaded =
     (case loaded of
        Inl e \<Rightarrow> None
      | Inr formFields \<Rightarrow>
          if length formFields = 0 then None else Some (mapIndexed nativeField 0 formFields))"

text \<open>
  The collaborators of \<open>processForm\<close> as inputs: the controls of the document, the text
  of \<open>pdf-parse\<close>, and the result of the OCR for an image.
\<close>

record ocrData =
  ocrText :: string
  ocrWords :: "wordBox list"
  ocrImageWidth :: "real option"
  ocrImageHeight :: "real option"

record uploaded =
  mimeType :: string
  pdfControls :: "error + pdfControl list"
  pdfText :: "error + string"
  imageOcr :: "error + ocrData"

definition processForm :: "uploaded \<Rightarrow> error + formSchema" where
  "processForm up =
     (if strIncludes (mimeType up) ''pdf'' then
        (case extractPDFFormFields (pdfControls up) of
           Some (f # fs) \<Rightarrow>
             Inr \<lparr> extractedText = ''Interactive PDF Form'', schemaFields = f # fs,
                   totalFields = length (f # fs), imageWidth = None, imageHeight = None,
                   isPDFForm = True \<rparr>
         | _ \<Rightarrow>
             (case pdfText up of
                Inl e \<Rightarrow> Inl e
              | Inr txt \<Rightarrow>
                  (case detectFormFields txt [] of
                     Inl e \<Rightarrow> Inl e
                   | Inr fs \<Rightarrow>
                       Inr \<lparr> extractedText = take 500 txt, schemaFields = fs,
                             totalFields = length fs, imageWidth = None, imageHeight = None,
                             isPDFForm = False \<rparr>)))
      else if strIncludes (mimeType up) ''image'' then
        (case imageOcr up of
           Inl e \<Rightarrow> Inl e
         | Inr ocr \<Rightarrow>
             (case detectFormFields (ocrText ocr) (ocrWords ocr) of
                Inl e \<Rightarrow> Inl e
              | Inr fs \<Rightarrow>
                  Inr \<lparr> extractedText = take 500 (ocrText ocr), schemaFields = fs,
                        totalFields = length fs, imageWidth = ocrImageWidth ocr,
                        imageHeight = ocrImageHeight ocr, isPDFForm = False \<rparr>))
      else Inl UnsupportedFileType)"

section \<open>Session store (sessionStore.js)\<close>

text \<open>
  The content of a history entry: the user's text, or the response object that the route
  serialises with \<open>JSON.stringify\<close>. Times are numbers read from a clock.
\<close>

record response =
  question :: string
  fieldId :: "string option"
  fieldLabel :: "string option"
  fieldType :: "fieldType option"
  respIsComplete :: bool
  validationError :: bool
  respError :: "string option"

datatype content = UserText string | Json response

record historyEntry =
  role :: string
  entryContent :: content
  timestamp :: nat

record session =
  sessionId :: string
  formSchema :: formSchema
  filledFields :: "string \<rightharpoonup> string"
  conversationHistory :: "historyEntry list"
  currentFieldIndex :: nat
  isComplete :: bool
  createdAt :: nat
  originalFilePath :: "string option"

type_synonym store = "string \<rightharpoonup> session"

definition createSession :: "nat \<Rightarrow> string \<Rightarrow> formSchema \<Rightarrow> store \<Rightarrow> store" where
  "createSession now sid schema st =
     st(sid \<mapsto> \<lparr> sessionId = sid, formSchema = schema, filledFields = Map.empty,
                   conversationHistory = [], currentFieldIndex = 0, isComplete = False,
                   createdAt = now, originalFilePath = None \<rparr>)"

definition getSession :: "store \<Rightarrow> string \<Rightarrow> session option" where
  "getSession st sid = st sid"

definition updateField :: "string \<Rightarrow> string \<Rightarrow> string \<Rightarrow> store \<Rightarrow> store" where
  "updateField sid fieldName v st =
     (case st sid of
        None \<Rightarrow> st
      | Some s \<Rightarrow> st(sid \<mapsto> s\<lparr> filledFields := (filledFields s)(fieldName \<mapsto> v) \<rparr>))"

definition addMessage :: "nat \<Rightarrow> string \<Rightarrow> string \<Rightarrow> content \<Rightarrow> store \<Rightarrow> store" where
  "addMessage now sid r c st =
     (case st sid of
        None \<Rightarrow> st
      | Some s \<Rightarrow>
          st(sid \<mapsto> s\<lparr> conversationHistory :=
                 conversationHistory s @ [\<lparr> role = r, entryContent = c, timestamp = now \<rparr>] \<rparr>))"

definition setCurrentFieldIndex :: "string \<Rightarrow> nat \<Rightarrow> store \<Rightarrow> store" where
  "setCurrentFieldIndex sid index st =
     (case st sid of None \<Rightarrow> st | Some s \<Rightarrow> st(sid \<mapsto> s\<lparr> currentFieldIndex := index \<rparr>))"

definition markComplete :: "string \<Rightarrow> store \<Rightarrow> store" where
  "markComplete sid st =
     (case st sid of None \<Rightarrow> st | Some s \<Rightarrow> st(sid \<mapsto> s\<lparr> isComplete := True \<rparr>))"

definition setOriginalFilePath :: "string \<Rightarrow> string \<Rightarrow> store \<Rightarrow> store" where
  "setOriginalFilePath sid filePath st =
     (case st sid of None \<Rightarrow> st | Some s \<Rightarrow> st(sid \<mapsto> s\<lparr> originalFilePath := Some filePath \<rparr>))"

definition deleteSession :: "string \<Rightarrow> store \<Rightarrow> store" where
  "deleteSession sid st = st(sid := None)"

section \<open>Question generation (aiService.js)\<close>




section \<open>The chat route (formRoutes.js)\<close>










section \<open>Document filling (pdfService.js)\<close>

text \<open>
  A document of the PDF library, as far as the fill engine reads and writes it: the sizes
  of its pages, its form controls, whether the form has been flattened, what has been
  drawn on the first page, and the metadata. Numbers are real numbers. The caller's two
  objects, the schema and the map of values, form the \<open>heap\<close> that every function of the
  engine receives by reference and returns.
\<close>

datatype fontName = Helvetica | HelveticaOblique

datatype glyphs = TextRun string | Checkmark

record drawOp =
  opGlyphs :: glyphs
  opX :: real
  opY :: real
  opSize :: real
  opFont :: fontName
  opColor :: "real \<times> real \<times> real"

record pdfDoc =
  pageSizes :: "(real \<times> real) list"
  docControls :: "pdfControl list"
  flattened :: bool
  drawnImage :: "(real \<times> real \<times> real \<times> real) option"
  drawnText :: "drawOp list"
  docTitle :: "string option"
  docAuthor :: "string option"
  docCreationDate :: "nat option"

record heap =
  hSchema :: formSchema
  hValues :: "string \<rightharpoonup> string"

text \<open>
  What the PDF library does is an input of the model. For the form: whether \<open>getForm\<close>
  or \<open>getFields\<close> throws on a document, whether a write into a control throws, whether
  \<open>flatten\<close> throws. For a font: the width \<open>widthOfTextAtSize\<close> gives, whether it can
  measure a text, and whether \<open>drawText\<close> can draw given glyphs in a given font; both
  throw on a character that the font's encoding lacks (with the standard Helvetica that
  is the check mark, among others).
\<close>

record formLib =
  formThrows :: "pdfDoc \<Rightarrow> bool"
  writeThrows :: "pdfControl \<Rightarrow> string \<Rightarrow> bool"
  flattenThrows :: "pdfDoc \<Rightarrow> bool"

record fontLib =
  widthOfTextAtSize :: "string \<Rightarrow> real \<Rightarrow> real"
  canMeasure :: "string \<Rightarrow> bool"
  canDraw :: "fontName \<Rightarrow> glyphs \<Rightarrow> bool"

text \<open>\<open>['yes', 'true', '1', 'checked', 'x'].includes(String(value).toLowerCase())\<close>\<close>

definition shouldCheck :: "string \<Rightarrow> bool" where
  "shouldCheck v = (toLowerCase v \<in> set [''yes'', ''true'', ''1'', ''checked'', ''x''])"

text \<open>\<open>const value = filledFields[field.id]; if (!value) return;\<close>\<close>

definition valueOf :: "heap \<Rightarrow> formField \<Rightarrow> string option" where
  "valueOf h field =
     (case hValues h (fid field) of
        None \<Rightarrow> None
      | Some v \<Rightarrow> if v = [] then None else Some v)"

subsection \<open>fillInteractivePDFForm\<close>

definition matchesLabel :: "formField \<Rightarrow> pdfControl \<Rightarrow> bool" where
  "matchesLabel field f =
     (let fieldName = toLowerCase (ctlName f); lbl = toLowerCase (label field)
      in strIncludes fieldName lbl \<or> strIncludes lbl fieldName)"

text \<open>
  The write into the control that was found, by its class. When the library rejects the
  write, the \<open>catch\<close> around it leaves the control as it was.
\<close>

definition writeControl :: "formLib \<Rightarrow> string \<Rightarrow> pdfControl \<Rightarrow> pdfControl" where
  "writeControl lib v f =
     (if writeThrows lib f v then f
      else (case ctlKind f of
              PDFTextField \<Rightarrow> f\<lparr> ctlText := Some v \<rparr>
            | PDFCheckBox \<Rightarrow> if shouldCheck v then f\<lparr> ctlChecked := True \<rparr> else f
            | PDFRadioGroup \<Rightarrow>
                (case find (\<lambda>opt. toLowerCase opt = toLowerCase v) (ctlOptions f) of
                   None \<Rightarrow> f
                 | Some matchingOption \<Rightarrow>
                     if matchingOption = [] then f else f\<lparr> ctlSelected := Some matchingOption \<rparr>)
            | PDFDropdown \<Rightarrow> f\<lparr> ctlSelected := Some v \<rparr>
            | PDFOtherField \<Rightarrow> f))"

text \<open>The first control that satisfies \<open>P\<close> is the object \<open>find\<close> returns; it is updated in place.\<close>

fun updateFirst :: "('a \<Rightarrow> bool) \<Rightarrow> ('a \<Rightarrow> 'a) \<Rightarrow> 'a list \<Rightarrow> 'a list" where
  "updateFirst P g [] = []"
| "updateFirst P g (x # xs) = (if P x then g x # xs else x # updateFirst P g xs)"

definition fillOneControl :: "formLib \<Rightarrow> formField \<Rightarrow> pdfDoc \<times> heap \<Rightarrow> pdfDoc \<times> heap" where
  "fillOneControl lib field dh =
     (case valueOf (snd dh) field of
        None \<Rightarrow> dh
      | Some v \<Rightarrow>
          ((fst dh)\<lparr> docControls :=
              updateFirst (matchesLabel field) (writeControl lib v) (docControls (fst dh)) \<rparr>,
           snd dh))"

text \<open>
  \<open>formSchema.fields.forEach\<close>: the fields are read from the schema of the heap at the
  start of the loop.
\<close>

fun fillControls :: "formLib \<Rightarrow> formField list \<Rightarrow> pdfDoc \<times> heap \<Rightarrow> pdfDoc \<times> heap" where
  "fillControls lib [] dh = dh"
| "fillControls lib (field # rest) dh = fillControls lib rest (fillOneControl lib field dh)"

text \<open>
  The outer \<open>catch\<close> returns \<open>false\<close> when \<open>getForm\<close>, \<open>getFields\<close> or \<open>flatten\<close>
  throws; what has been written into the controls before a throw of \<open>flatten\<close> stays.
\<close>

definition fillInteractivePDFForm :: "formLib \<Rightarrow> pdfDoc \<Rightarrow> heap \<Rightarrow> bool \<times> pdfDoc \<times> heap" where
  "fillInteractivePDFForm lib pdf h =
     (if formThrows lib pdf then (False, pdf, h)
      else if length (docControls pdf) = 0 then (False, pdf, h)
      else
        (let dh = fillControls lib (schemaFields (hSchema h)) (pdf, h)
         in if flattenThrows lib (fst dh) then (False, fst dh, snd dh)
            else (True, (fst dh)\<lparr> flattened := True \<rparr>, snd dh)))"

subsection \<open>fillScannedForm\<close>

text \<open>\<open>formSchema.imageHeight || height\<close>: an absent or zero dimension gives the page's.\<close>

definition orElse :: "real option \<Rightarrow> real \<Rightarrow> real" where
  "orElse d page = (case d of None \<Rightarrow> page | Some v \<Rightarrow> if v = 0 then page else v)"

text \<open>The position at which the value of a field is drawn on a page of the given size.\<close>

definition drawPosition :: "real \<Rightarrow> real \<Rightarrow> formSchema \<Rightarrow> formField \<Rightarrow> nat \<Rightarrow> real \<times> real" where
  "drawPosition width height schema field index =
     (case coordinates field of
        Some c \<Rightarrow>
          let imgHeight = orElse (imageHeight schema) height;
              imgWidth = orElse (imageWidth schema) width;
              scaleX = width / imgWidth;
              scaleY = height / imgHeight
          in (inputX c * scaleX, height - (inputY c * scaleY))
      | None \<Rightarrow>
          let startY = height - 150; lineHeight = 25
          in (150, startY - (real index * lineHeight)))"

text \<open>
  The loop that shortens a text until it fits with its ellipsis. Every measurement
  throws when the font cannot encode the text.
\<close>

function truncateLoop :: "fontLib \<Rightarrow> real \<Rightarrow> string \<Rightarrow> error + string" where
  "truncateLoop font maxWidth displayText =
     (if \<not> canMeasure font (displayText @ ''...'') then Inl EncodingError
      else if widthOfTextAtSize font (displayText @ ''...'') 10 > maxWidth \<and> length displayText > 0
      then truncateLoop font maxWidth (butlast displayText)
      else Inr displayText)"
  by pat_completeness auto
termination
  by (relation "measure (\<lambda>(f, m, s). length s)") auto

declare truncateLoop.simps [simp del]

definition displayTextOf :: "fontLib \<Rightarrow> real \<Rightarrow> string \<Rightarrow> error + string" where
  "displayTextOf font maxWidth textValue =
     (if \<not> canMeasure font textValue then Inl EncodingError
      else if widthOfTextAtSize font textValue 10 > maxWidth
      then (case truncateLoop font maxWidth textValue of
              Inl e \<Rightarrow> Inl e
            | Inr displayText \<Rightarrow> Inr (displayText @ ''...''))
      else Inr textValue)"

text \<open>\<open>firstPage.drawText\<close>: the drawing is recorded, or the call throws.\<close>

definition drawText :: "fontLib \<Rightarrow> drawOp \<Rightarrow> pdfDoc \<times> heap \<Rightarrow> error option \<times> pdfDoc \<times> heap" where
  "drawText font d dh =
     (if canDraw font (opFont d) (opGlyphs d)
      then (None, (fst dh)\<lparr> drawnText := drawnText (fst dh) @ [d] \<rparr>, snd dh)
      else (Some EncodingError, dh))"

text \<open>One call of the callback of \<open>formSchema.fields.forEach\<close>.\<close>

definition drawField ::
  "fontLib \<Rightarrow> real \<Rightarrow> real \<Rightarrow> formField \<Rightarrow> nat \<Rightarrow> pdfDoc \<times> heap \<Rightarrow> error option \<times> pdfDoc \<times> heap" where
  "drawField font width height field index dh =
     (case valueOf (snd dh) field of
        None \<Rightarrow> (None, dh)
      | Some v \<Rightarrow>
          let pos = drawPosition width height (hSchema (snd dh)) field index;
              xPos = fst pos; yPos = snd pos
          in if ftype field = Checkbox then
               (if shouldCheck v
                then drawText font \<lparr> opGlyphs = Checkmark, opX = xPos, opY = yPos, opSize = 12,
                                      opFont = Helvetica, opColor = (0, 0, 0) \<rparr> dh
                else (None, dh))
             else if ftype field = Signature then
               drawText font \<lparr> opGlyphs = TextRun v, opX = xPos, opY = yPos, opSize = 10 + 2,
                                 opFont = HelveticaOblique, opColor = (0, 0, 0.5) \<rparr> dh
             else
               (case displayTextOf font (width - xPos - 50) v of
                  Inl e \<Rightarrow> (Some e, dh)
                | Inr displayText \<Rightarrow>
                    drawText font \<lparr> opGlyphs = TextRun displayText, opX = xPos, opY = yPos,
                                      opSize = 10, opFont = Helvetica, opColor = (0, 0, 0) \<rparr> dh))"

text \<open>The loop over the fields: a throw of the callback ends it.\<close>

fun drawFields ::
  "fontLib \<Rightarrow> real \<Rightarrow> real \<Rightarrow> formField list \<Rightarrow> nat \<Rightarrow> pdfDoc \<times> heap \<Rightarrow> error option \<times> pdfDoc \<times> heap" where
  "drawFields font width height [] index dh = (None, dh)"
| "drawFields font width height (field # rest) index dh =
     (case drawField font width height field index dh of
        (Some e, dh') \<Rightarrow> (Some e, dh')
      | (None, dh') \<Rightarrow> drawFields font width height rest (Suc index) dh')"

text \<open>
  \<open>width\<close> and \<open>height\<close> are the size of the first page; without a first page
  \<open>firstPage.getSize()\<close> throws.
\<close>

definition fillScannedForm :: "fontLib \<Rightarrow> pdfDoc \<Rightarrow> heap \<Rightarrow> error option \<times> pdfDoc \<times> heap" where
  "fillScannedForm font pdf h =
     (case pageSizes pdf of
        [] \<Rightarrow> (Some TypeError, pdf, h)
      | firstPage # _ \<Rightarrow>
          drawFields font (fst firstPage) (snd firstPage) (schemaFields (hSchema h)) 0 (pdf, h))"

subsection \<open>generateFilledPDF\<close>

text \<open>
  The original file as the function finds it: unreadable, a PDF that loads or not, an
  image that embeds (with its pixel size) or not, or a file of another kind, for which no
  image is drawn.
\<close>

datatype original =
    Unreadable
  | PdfFile "pdfDoc option"
  | ImageFile "(real \<times> real) option"
  | OtherFile

definition emptyDoc :: pdfDoc where
  "emptyDoc =
     \<lparr> pageSizes = [], docControls = [], flattened = False, drawnImage = None, drawnText = [],
       docTitle = None, docAuthor = None, docCreationDate = None \<rparr>"

text \<open>The placement of the image on the letter page: fitted, aspect ratio kept.\<close>

definition imagePlacement :: "real \<Rightarrow> real \<Rightarrow> real \<Rightarrow> real \<Rightarrow> real \<times> real \<times> real \<times> real" where
  "imagePlacement iw ih width height =
     (let imageAspect = iw / ih; pageAspect = width / height
      in if imageAspect > pageAspect
         then (let imgWidth = width - 100; imgHeight = imgWidth / imageAspect
               in (50, (height - imgHeight) / 2, imgWidth, imgHeight))
         else (let imgHeight = height - 100; imgWidth = imgHeight * imageAspect
               in ((width - imgWidth) / 2, 50, imgWidth, imgHeight)))"

definition stampMetadata :: "nat \<Rightarrow> pdfDoc \<Rightarrow> pdfDoc" where
  "stampMetadata now pdf =
     pdf\<lparr> docTitle := Some ''Filled Form'', docAuthor := Some ''Intelligent Form Filler'',
          docCreationDate := Some now \<rparr>"

definition newImagePage :: "(real \<times> real) option \<Rightarrow> pdfDoc" where
  "newImagePage img =
     emptyDoc\<lparr> pageSizes := [(612, 792)],
               drawnImage := map_option (\<lambda>i. imagePlacement (fst i) (snd i) 612 792) img \<rparr>"

text \<open>
  The result is the document that is saved, or the error the \<open>catch\<close> rethrows, together
  with the heap as the call leaves it.
\<close>

definition generateFilledPDF ::
  "formLib \<Rightarrow> fontLib \<Rightarrow> nat \<Rightarrow> original \<Rightarrow> heap \<Rightarrow> (error + pdfDoc) \<times> heap" where
  "generateFilledPDF lib font now orig h =
     (case orig of
        Unreadable \<Rightarrow> (Inl PdfGenerationFailed, h)
      | PdfFile None \<Rightarrow> (Inl PdfGenerationFailed, h)
      | PdfFile (Some pdf) \<Rightarrow>
          (case fillInteractivePDFForm lib pdf h of
             (filledInteractive, pdf1, h1) \<Rightarrow>
               if filledInteractive then (Inr (stampMetadata now pdf1), h1)
               else (case fillScannedForm font pdf1 h1 of
                       (Some e, pdf2, h2) \<Rightarrow> (Inl PdfGenerationFailed, h2)
                     | (None, pdf2, h2) \<Rightarrow> (Inr (stampMetadata now pdf2), h2)))
      | ImageFile None \<Rightarrow> (Inl PdfGenerationFailed, h)
      | ImageFile (Some dims) \<Rightarrow>
          (case fillScannedForm font (newImagePage (Some dims)) h of
             (Some e, pdf2, h2) \<Rightarrow> (Inl PdfGenerationFailed, h2)
           | (None, pdf2, h2) \<Rightarrow> (Inr (stampMetadata now pdf2), h2))
      | OtherFile \<Rightarrow>
          (case fillScannedForm font (newImagePage None) h of
             (Some e, pdf2, h2) \<Rightarrow> (Inl PdfGenerationFailed, h2)
           | (None, pdf2, h2) \<Rightarrow> (Inr (stampMetadata now pdf2), h2)))"

section \<open>Notions of the specification\<close>

text \<open>The ids \<open>field_1\<close>, ..., \<open>field_n\<close> in this order.\<close>

definition fieldIds :: "nat \<Rightarrow> string list" where
  "fieldIds n = map (\<lambda>i. ''field_'' @ showNat (Suc i)) [0..<n]"

definition idsOk :: "formField list \<Rightarrow> bool" where
  "idsOk fs = (map fid fs = fieldIds (length fs))"

text \<open>The number that a string of decimal digits denotes.\<close>

fun digitValue :: "char list \<Rightarrow> char \<Rightarrow> nat" where
  "digitValue [] c = 0"
| "digitValue (d # ds) c = (if c = d then 0 else Suc (digitValue ds c))"

definition digitsValue :: "string \<Rightarrow> nat" where
  "digitsValue s = foldl (\<lambda>a c. 10 * a + digitValue digit_chars c) 0 s"


section \<open>Example data\<close>

definition exampleFields :: "formField list" where
  "exampleFields =
     [genericField ''field_1'' ''Full Name'' Name True,
      genericField ''field_2'' ''Email Address'' Email True,
      genericField ''field_3'' ''Phone Number'' Phone True]"

definition exampleSchema :: formSchema where
  "exampleSchema =
     \<lparr> extractedText = [], schemaFields = exampleFields, totalFields = 3,
       imageWidth = None, imageHeight = None, isPDFForm = False \<rparr>"


definition exampleStore :: store where
  "exampleStore = createSession 0 ''s1'' exampleSchema Map.empty"

definition exampleCoordinates :: coordinates where
  "exampleCoordinates =
     \<lparr> coordX = 10, coordY = 50, coordWidth = 80, coordHeight = 12, inputX = 100, inputY = 50 \<rparr>"

definition examplePlacedField :: formField where
  "examplePlacedField =
     \<lparr> fid = ''field_1'', label = ''Name'', ftype = Name, required = True, fvalue = None,
       position = Some 0, coordinates = Some exampleCoordinates, pdfFieldName = None \<rparr>"

definition exampleScannedSchema :: formSchema where
  "exampleScannedSchema =
     \<lparr> extractedText = ''Name:'', schemaFields = [examplePlacedField], totalFields = 1,
       imageWidth = Some 1000, imageHeight = Some 2000, isPDFForm = False \<rparr>"

definition exampleHeap :: heap where
  "exampleHeap = \<lparr> hSchema = exampleScannedSchema, hValues = [''field_1'' \<mapsto> ''John''] \<rparr>"

text \<open>The two-line text of the scenario, and the two fields of its primary pass.\<close>

definition scenarioText :: string where
  "scenarioText = ''Full Name: ____'' @ [CHR 0x0A] @ ''Email Address: ____''"

definition scenarioField1 :: formField where
  "scenarioField1 =
     \<lparr> fid = ''field_1'', label = ''Full'', ftype = Name, required = True, fvalue = None,
       position = Some 0, coordinates = None, pdfFieldName = None \<rparr>"

definition scenarioField2 :: formField where
  "scenarioField2 =
     \<lparr> fid = ''field_2'', label = ''Email'', ftype = Email, required = True, fvalue = None,
       position = Some 1, coordinates = None, pdfFieldName = None \<rparr>"

text \<open>A text in which the passes find nothing, and an upload of a one-line image.\<close>

definition exampleBlankText :: string where
  "exampleBlankText = ''ab'' @ [CHR 0x0A] @ ''--''"

definition exampleNameField :: formField where
  "exampleNameField =
     \<lparr> fid = ''field_1'', label = ''Name'', ftype = Name, required = True, fvalue = None,
       position = Some 0, coordinates = None, pdfFieldName = None \<rparr>"

definition exampleUpload :: uploaded where
  "exampleUpload =
     \<lparr> mimeType = ''image/png'', pdfControls = Inl PdfParseFailed, pdfText = Inl PdfParseFailed,
       imageOcr = Inr \<lparr> ocrText = ''Name:'', ocrWords = [], ocrImageWidth = Some 1000,
                          ocrImageHeight = Some 2000 \<rparr> \<rparr>"

definition exampleControl :: pdfControl where
  "exampleControl =
     \<lparr> ctlName = ''email'', ctlKind = PDFTextField, ctlOptions = [], ctlText = None,
       ctlChecked = False, ctlSelected = None \<rparr>"

text \<open>
  A font that measures and draws printable ASCII text only, and a library of the form
  that never throws.
\<close>

definition printable :: "string \<Rightarrow> bool" where
  "printable s = list_all (\<lambda>c. c \<in> set (lower_chars @ upper_chars @ digit_chars @ '' .,-'')) s"

definition exampleFont :: fontLib where
  "exampleFont =
     \<lparr> widthOfTextAtSize = (\<lambda>s size. real (length s) * size / 2),
       canMeasure = printable,
       canDraw = (\<lambda>f g. case g of TextRun s \<Rightarrow> printable s | Checkmark \<Rightarrow> False) \<rparr>"

definition exampleScan :: pdfDoc where
  "exampleScan = newImagePage (Some (1000, 2000))"

section \<open>Properties\<close>

subsection \<open>The matcher\<close>

lemma prevAfter_Nil [simp]: "prevAfter q [] = q"
  by (simp add: prevAfter_def)

lemma prevAfter_Cons [simp]: "prevAfter q (c # u) = prevAfter (Some c) u"
  by (simp add: prevAfter_def)

lemma prevAfter_append [simp]: "prevAfter q (u @ v) = prevAfter (prevAfter q u) v"
  by (simp add: prevAfter_def)

lemma stepIf_iff:
  "(q', t') \<in> set (stepIf P (q, t)) \<longleftrightarrow> (\<exists>c. t = c # t' \<and> P c \<and> q' = Some c)"
  by (cases t) auto

lemma stepIf_memD:
  "m \<in> set (stepIf P (q, t)) \<Longrightarrow> \<exists>c cs. t = c # cs \<and> P c \<and> m = (Some c, cs)"
  by (cases t) (auto split: if_splits)


lemma rxFind_None_iff:
  "rxFind ci r p s k = None \<longleftrightarrow> (\<forall>u t. s = u @ t \<longrightarrow> rxm ci r (prevAfter p u, t) = [])"
proof (induction s arbitrary: p k)
  case Nil
  then show ?case by (auto split: list.splits)
next
  case (Cons c cs)
  have split: "(\<forall>u t. c # cs = u @ t \<longrightarrow> rxm ci r (prevAfter p u, t) = []) \<longleftrightarrow>
        rxm ci r (p, c # cs) = [] \<and> (\<forall>u t. cs = u @ t \<longrightarrow> rxm ci r (prevAfter (Some c) u, t) = [])"
    (is "?L \<longleftrightarrow> ?R")
  proof
    assume L: ?L
    have "rxm ci r (prevAfter p [], c # cs) = []" using L by blast
    moreover have "\<forall>u t. cs = u @ t \<longrightarrow> rxm ci r (prevAfter (Some c) u, t) = []"
    proof (intro allI impI)
      fix u t assume "cs = u @ t"
      then have "c # cs = (c # u) @ t" by simp
      then have "rxm ci r (prevAfter p (c # u), t) = []" using L by blast
      then show "rxm ci r (prevAfter (Some c) u, t) = []" by simp
    qed
    ultimately show ?R by simp
  next
    assume R: ?R
    show ?L
    proof (intro allI impI)
      fix u t assume e: "c # cs = u @ t"
      show "rxm ci r (prevAfter p u, t) = []"
      proof (cases u)
        case Nil
        then show ?thesis using e R by simp
      next
        case (Cons d u')
        then have "d = c" "cs = u' @ t" using e by simp_all
        then show ?thesis using R Cons by simp
      qed
    qed
  qed
  show ?case
    by (simp only: split) (auto simp: Cons.IH split: list.splits)
qed

lemma rxTest_iff:
  "rxTest ci r s \<longleftrightarrow> (\<exists>u t. s = u @ t \<and> rxm ci r (prevAfter None u, t) \<noteq> [])"
  by (simp add: rxTest_def rxFind_None_iff)


lemma starIter_stepIf_sound:
  "(q', t') \<in> set (starIter (stepIf P) n (q, t)) \<Longrightarrow>
     \<exists>u. t = u @ t' \<and> (\<forall>c\<in>set u. P c) \<and> q' = prevAfter q u"
proof (induction n arbitrary: q t)
  case 0
  then show ?case by simp
next
  case (Suc n)
  from Suc.prems consider
      (here) "(q', t') = (q, t)"
    | (more) m where "m \<in> set (stepIf P (q, t))" "(q', t') \<in> set (starIter (stepIf P) n m)"
    by auto
  then show ?case
  proof cases
    case here
    then show ?thesis by simp
  next
    case more
    obtain c cs where m: "t = c # cs" "P c" "m = (Some c, cs)"
      using stepIf_memD[OF more(1)] by blast
    from Suc.IH[of "Some c" cs] more(2) m
    obtain u where "cs = u @ t'" "\<forall>c\<in>set u. P c" "q' = prevAfter (Some c) u" by auto
    then have "t = (c # u) @ t' \<and> (\<forall>x\<in>set (c # u). P x) \<and> q' = prevAfter q (c # u)"
      using m by simp
    then show ?thesis by blast
  qed
qed

lemma starIter_stepIf_complete:
  "t = u @ t' \<Longrightarrow> \<forall>c\<in>set u. P c \<Longrightarrow> length u \<le> n \<Longrightarrow>
     (prevAfter q u, t') \<in> set (starIter (stepIf P) n (q, t))"
proof (induction n arbitrary: q t u)
  case 0
  then show ?case by simp
next
  case (Suc n)
  show ?case
  proof (cases u)
    case Nil
    then show ?thesis using Suc.prems by simp
  next
    case (Cons c u')
    then have t: "t = c # (u' @ t')" and pc: "P c" and rest: "\<forall>c\<in>set u'. P c" "length u' \<le> n"
      using Suc.prems by simp_all
    have "(prevAfter (Some c) u', t') \<in> set (starIter (stepIf P) n (Some c, u' @ t'))"
      using Suc.IH[OF refl rest] .
    then show ?thesis using t pc Cons by auto
  qed
qed

lemma rxm_Star_Cls_iff:
  "(q', t') \<in> set (rxm ci (Star (Cls cs)) (q, t)) \<longleftrightarrow>
     (\<exists>u. t = u @ t' \<and> set u \<subseteq> set cs \<and> q' = prevAfter q u)"
proof
  assume "(q', t') \<in> set (rxm ci (Star (Cls cs)) (q, t))"
  then show "\<exists>u. t = u @ t' \<and> set u \<subseteq> set cs \<and> q' = prevAfter q u"
    using starIter_stepIf_sound[of q' t' "\<lambda>d. d \<in> set cs" "length t" q t] by auto
next
  assume "\<exists>u. t = u @ t' \<and> set u \<subseteq> set cs \<and> q' = prevAfter q u"
  then obtain u where u: "t = u @ t'" "set u \<subseteq> set cs" "q' = prevAfter q u" by blast
  then have "(prevAfter q u, t') \<in> set (starIter (stepIf (\<lambda>d. d \<in> set cs)) (length t) (q, t))"
    by (intro starIter_stepIf_complete) auto
  then show "(q', t') \<in> set (rxm ci (Star (Cls cs)) (q, t))" using u by simp
qed

lemma rxm_repMin_Cls_iff:
  "(q', t') \<in> set (rxm ci (repMin n (Cls cs)) (q, t)) \<longleftrightarrow>
     (\<exists>u. t = u @ t' \<and> n \<le> length u \<and> set u \<subseteq> set cs \<and> q' = prevAfter q u)"
proof (induction n arbitrary: q t)
  case 0
  then show ?case by (simp only: repMin.simps rxm_Star_Cls_iff) auto
next
  case (Suc n)
  show ?case (is "?L \<longleftrightarrow> ?R")
  proof
    assume ?L
    then obtain m where m: "m \<in> set (stepIf (\<lambda>d. d \<in> set cs) (q, t))"
        "(q', t') \<in> set (rxm ci (repMin n (Cls cs)) m)"
      by auto
    obtain c rest where c: "t = c # rest" "c \<in> set cs" "m = (Some c, rest)"
      using stepIf_memD[OF m(1)] by blast
    obtain u where "rest = u @ t'" "n \<le> length u" "set u \<subseteq> set cs" "q' = prevAfter (Some c) u"
      using m(2) c Suc.IH[of "Some c" rest] by auto
    then have "t = (c # u) @ t' \<and> Suc n \<le> length (c # u) \<and> set (c # u) \<subseteq> set cs
         \<and> q' = prevAfter q (c # u)"
      using c by simp
    then show ?R by blast
  next
    assume ?R
    then obtain u where u: "t = u @ t'" "Suc n \<le> length u" "set u \<subseteq> set cs" "q' = prevAfter q u"
      by blast
    then obtain c u' where cu: "u = c # u'" by (cases u) auto
    have "(q', t') \<in> set (rxm ci (repMin n (Cls cs)) (Some c, u' @ t'))"
      using u cu Suc.IH[of "Some c" "u' @ t'"] by auto
    moreover have "(Some c, u' @ t') \<in> set (stepIf (\<lambda>d. d \<in> set cs) (q, t))"
      using u cu by (simp add: stepIf_iff)
    ultimately show ?L by auto
  qed
qed

lemma concat_map_empty_iff: "concat (map f xs) = [] \<longleftrightarrow> (\<forall>x\<in>set xs. f x = [])"
  by (induction xs) auto

lemma rxm_Seq_Eol_nonempty:
  "rxm ci (Seq r Eol) st \<noteq> [] \<longleftrightarrow> (\<exists>q. (q, []) \<in> set (rxm ci r st))"
proof -
  have "rxm ci (Seq r Eol) st = concat (map (\<lambda>m. if snd m = [] then [m] else []) (rxm ci r st))"
    by simp
  then have "rxm ci (Seq r Eol) st \<noteq> [] \<longleftrightarrow>
      \<not> (\<forall>m\<in>set (rxm ci r st). (if snd m = [] then [m] else []) = [])"
    by (simp only: concat_map_empty_iff)
  also have "\<dots> \<longleftrightarrow> (\<exists>m\<in>set (rxm ci r st). snd m = [])"
    by auto
  also have "\<dots> \<longleftrightarrow> (\<exists>q. (q, []) \<in> set (rxm ci r st))"
    by force
  finally show ?thesis .
qed

lemma rxm_Seq_Bol:
  "rxm ci (Seq Bol r) st = (if fst st = None then rxm ci r st else [])"
  by auto

lemma prevAfter_None_iff: "prevAfter None u = None \<longleftrightarrow> u = []"
  by (simp add: prevAfter_def)

lemma rxTest_anchored:
  "rxTest ci (Seq Bol (Seq r Eol)) s \<longleftrightarrow> (\<exists>q. (q, []) \<in> set (rxm ci r (None, s)))"
proof -
  have "rxTest ci (Seq Bol (Seq r Eol)) s \<longleftrightarrow>
      (\<exists>u t. s = u @ t \<and> u = [] \<and> rxm ci (Seq r Eol) (prevAfter None u, t) \<noteq> [])"
    unfolding rxTest_iff rxm_Seq_Bol by (auto simp: prevAfter_None_iff)
  also have "\<dots> \<longleftrightarrow> rxm ci (Seq r Eol) (None, s) \<noteq> []"
    by auto
  finally show ?thesis by (simp only: rxm_Seq_Eol_nonempty)
qed

subsection \<open>Validation\<close>

lemma all_dropWhile: "(\<forall>x\<in>set (dropWhile P xs). P x) \<longleftrightarrow> (\<forall>x\<in>set xs. P x)"
  by (induction xs) auto

lemma trim_empty_iff: "trim v = [] \<longleftrightarrow> (\<forall>c\<in>set v. isSpace c)"
  by (simp add: trim_def dropWhile_eq_Nil_conv all_dropWhile)

lemma phone_pattern_iff:
  "rxTest False phoneValidation v \<longleftrightarrow> 10 \<le> length v \<and> set v \<subseteq> set phoneChars"
  by (auto simp: phoneValidation_def rxTest_anchored rxm_repMin_Cls_iff)

lemma phone_accepts_iff:
  "valid (validateFieldValue Phone v) \<longleftrightarrow>
     10 \<le> length v \<and> set v \<subseteq> set phoneChars \<and> \<not> (\<forall>c\<in>set v. isSpace c)"
  by (auto simp: validateFieldValue_def phone_pattern_iff trim_empty_iff)

text \<open>
  Claim C4 says that a phone value is accepted exactly when it holds at least 10 digits
  among spaces, hyphens, parentheses and plus signs. The pattern counts characters of the
  class, not digits (\<open>phone_accepts_iff\<close>): the value below has 8 digits and is accepted.
\<close>

theorem phone_accepts_eight_digits:
  "valid (validateFieldValue Phone ''123-456-78'')
   \<and> length (filter (\<lambda>c. c \<in> set digit_chars) ''123-456-78'') = 8"
  by (simp add: phone_accepts_iff phoneChars_def digit_chars_def ws_chars_def isSpace_def)

lemma validations_other:
  "t \<notin> {Email, Phone, Date, Ssn} \<Longrightarrow> validations t = None"
  by (cases t) simp_all

lemma valid_email_example: "valid (validateFieldValue Email ''a@b.com'')"
  by code_simp

lemma invalid_email_example: "\<not> valid (validateFieldValue Email ''not-an-email'')"
  by code_simp

text \<open>
  Claim C5: for every field type a value that is empty or consists of white space only
  is invalid (with the message that the field cannot be empty); the value a@b.com is a
  valid email and not-an-email is not; and for every type other than email, phone, date
  and ssn, every value that is not white space only is accepted.
\<close>

theorem validate_empty_email_other:
  "((\<forall>c\<in>set v. isSpace c) \<longrightarrow>
      \<not> valid (validateFieldValue t v)
      \<and> message (validateFieldValue t v) = ''This field cannot be empty'')
   \<and> valid (validateFieldValue Email ''a@b.com'')
   \<and> \<not> valid (validateFieldValue Email ''not-an-email'')
   \<and> (t' \<notin> {Email, Phone, Date, Ssn} \<and> \<not> (\<forall>c\<in>set w. isSpace c) \<longrightarrow>
        valid (validateFieldValue t' w))"
proof (intro conjI impI)
  assume blank: "\<forall>c\<in>set v. isSpace c"
  then have "trim v = []" by (simp add: trim_empty_iff)
  then show "\<not> valid (validateFieldValue t v)"
    and "message (validateFieldValue t v) = ''This field cannot be empty''"
    by (simp_all add: validateFieldValue_def)
next
  show "valid (validateFieldValue Email ''a@b.com'')" by (rule valid_email_example)
  show "\<not> valid (validateFieldValue Email ''not-an-email'')" by (rule invalid_email_example)
next
  assume h: "t' \<notin> {Email, Phone, Date, Ssn} \<and> \<not> (\<forall>c\<in>set w. isSpace c)"
  then have "trim w \<noteq> []" "w \<noteq> []" by (auto simp: trim_empty_iff)
  moreover have "validations t' = None" using h by (intro validations_other) simp
  ultimately show "valid (validateFieldValue t' w)" by (simp add: validateFieldValue_def)
qed

theorem validate_empty_email_other_witness:
  "trim ''  '' = []
   \<and> \<not> valid (validateFieldValue Phone ''  '')
   \<and> message (validateFieldValue Phone ''  '') = ''This field cannot be empty''
   \<and> Address \<notin> {Email, Phone, Date, Ssn}
   \<and> trim ''12 Main St'' = ''12 Main St''
   \<and> valid (validateFieldValue Address ''12 Main St'')"
proof -
  have blank: "\<forall>c\<in>set ''  ''. isSpace c" by (simp add: isSpace_def ws_chars_def)
  have other: "Address \<notin> {Email, Phone, Date, Ssn} \<and> \<not> (\<forall>c\<in>set ''12 Main St''. isSpace c)"
    by (simp add: isSpace_def ws_chars_def)
  have trims: "trim ''  '' = []" "trim ''12 Main St'' = ''12 Main St''"
    by (simp_all add: trim_def isSpace_def ws_chars_def)
  show ?thesis
    using blank other trims
      validate_empty_email_other [of "''  ''" Phone Address "''12 Main St''"]
    by blast
qed

subsection \<open>The chat transition\<close>

lemmas store_defs = getSession_def updateField_def addMessage_def setCurrentFieldIndex_def
  markComplete_def setOriginalFilePath_def deleteSession_def









lemma invalid_empty_example: "\<not> valid (validateFieldValue Name [])"
  by (simp add: validateFieldValue_def)






subsection \<open>The session store and an unknown session id\<close>

text \<open>
  Claim C10: each of updateField, addMessage, setCurrentFieldIndex, markComplete,
  setOriginalFilePath and deleteSession, called with a session id that is not in the
  store, leaves the store as it was (none of them has a failing branch), and getSession
  gives null for such an id.
\<close>

theorem store_absent_session_noop:
  "st sid = None \<Longrightarrow>
     updateField sid fieldName v st = st \<and>
     addMessage now sid r c st = st \<and>
     setCurrentFieldIndex sid index st = st \<and>
     markComplete sid st = st \<and>
     setOriginalFilePath sid filePath st = st \<and>
     deleteSession sid st = st \<and>
     getSession st sid = None"
  by (auto simp: store_defs)

theorem store_absent_session_noop_witness:
  "exampleStore ''s2'' = None \<and>
   updateField ''s2'' ''field_1'' ''John'' exampleStore = exampleStore \<and>
   addMessage 1 ''s2'' ''user'' (UserText ''John'') exampleStore = exampleStore \<and>
   setCurrentFieldIndex ''s2'' 1 exampleStore = exampleStore \<and>
   markComplete ''s2'' exampleStore = exampleStore \<and>
   setOriginalFilePath ''s2'' ''form.pdf'' exampleStore = exampleStore \<and>
   deleteSession ''s2'' exampleStore = exampleStore \<and>
   getSession exampleStore ''s2'' = None"
proof -
  have absent: "exampleStore ''s2'' = None"
    by (simp add: exampleStore_def createSession_def)
  show ?thesis
    using absent
      store_absent_session_noop [where st = exampleStore and sid = "''s2''"
        and fieldName = "''field_1''" and v = "''John''" and now = 1 and r = "''user''"
        and c = "UserText ''John''" and index = 1 and filePath = "''form.pdf''"]
    by simp
qed

subsection \<open>Document filling\<close>

lemma fillOneControl_heap: "snd (fillOneControl lib field dh) = snd dh"
  by (simp add: fillOneControl_def split: option.splits)

lemma fillControls_heap: "snd (fillControls lib fs dh) = snd dh"
  by (induction fs arbitrary: dh) (simp_all add: fillOneControl_heap)

lemma fillInteractivePDFForm_heap: "snd (snd (fillInteractivePDFForm lib pdf h)) = h"
  by (simp add: fillInteractivePDFForm_def Let_def fillControls_heap)

lemma drawText_heap: "snd (snd (drawText font d dh)) = snd dh"
  by (simp add: drawText_def)

lemma drawText_drawn:
  "fst (drawText font d dh) = None \<Longrightarrow>
     drawnText (fst (snd (drawText font d dh))) = drawnText (fst dh) @ [d]"
  by (simp add: drawText_def split: if_splits)

lemma drawText_appends:
  "\<exists>ops. drawnText (fst (snd (drawText font d dh))) = drawnText (fst dh) @ ops"
  by (simp add: drawText_def)

lemma drawField_heap: "snd (snd (drawField font width height field index dh)) = snd dh"
  by (simp add: drawField_def Let_def drawText_heap split: option.splits sum.splits)

lemma drawField_appends:
  "\<exists>ops. drawnText (fst (snd (drawField font width height field index dh)))
            = drawnText (fst dh) @ ops"
  by (simp add: drawField_def Let_def drawText_appends split: option.splits sum.splits)

lemma drawField_position:
  assumes v: "valueOf (snd dh) field = Some v"
    and t: "ftype field \<noteq> Checkbox"
    and ok: "fst (drawField font width height field index dh) = None"
  shows "\<exists>d. drawnText (fst (snd (drawField font width height field index dh)))
               = drawnText (fst dh) @ [d]
           \<and> (opX d, opY d) = drawPosition width height (hSchema (snd dh)) field index"
proof (cases "ftype field = Signature")
  case True
  define d where "d = \<lparr> opGlyphs = TextRun v,
      opX = fst (drawPosition width height (hSchema (snd dh)) field index),
      opY = snd (drawPosition width height (hSchema (snd dh)) field index), opSize = 10 + 2,
      opFont = HelveticaOblique, opColor = (0, 0, 0.5) \<rparr>"
  have eq: "drawField font width height field index dh = drawText font d dh"
    using v t True by (simp add: drawField_def Let_def d_def)
  have "drawnText (fst (snd (drawText font d dh))) = drawnText (fst dh) @ [d]"
    using ok eq by (simp add: drawText_drawn)
  moreover have "(opX d, opY d) = drawPosition width height (hSchema (snd dh)) field index"
    by (simp add: d_def)
  ultimately show ?thesis using eq by auto
next
  case False
  let ?pos = "drawPosition width height (hSchema (snd dh)) field index"
  show ?thesis
  proof (cases "displayTextOf font (width - fst ?pos - 50) v")
    case (Inl e)
    then have "fst (drawField font width height field index dh) = Some e"
      using v t False by (simp add: drawField_def Let_def)
    then show ?thesis using ok by simp
  next
    case (Inr displayText)
    define d where "d = \<lparr> opGlyphs = TextRun displayText, opX = fst ?pos, opY = snd ?pos,
      opSize = 10, opFont = Helvetica, opColor = (0, 0, 0) \<rparr>"
    have eq: "drawField font width height field index dh = drawText font d dh"
      using v t False Inr by (simp add: drawField_def Let_def d_def)
    have "drawnText (fst (snd (drawText font d dh))) = drawnText (fst dh) @ [d]"
      using ok eq by (simp add: drawText_drawn)
    moreover have "(opX d, opY d) = ?pos"
      by (simp add: d_def)
    ultimately show ?thesis using eq by auto
  qed
qed

lemma drawFields_Cons_None:
  assumes "fst (drawFields font width height (field # rest) index dh) = None"
  shows "fst (drawField font width height field index dh) = None
         \<and> drawFields font width height (field # rest) index dh
             = drawFields font width height rest (Suc index)
                 (snd (drawField font width height field index dh))"
  using assms
  by (cases "drawField font width height field index dh")
     (auto split: option.splits)

lemma drawFields_heap: "snd (snd (drawFields font width height fs index dh)) = snd dh"
proof (induction fs arbitrary: index dh)
  case Nil
  show ?case by simp
next
  case (Cons field rest)
  obtain e dh' where f: "drawField font width height field index dh = (e, dh')"
    by (cases "drawField font width height field index dh") auto
  have h: "snd dh' = snd dh"
    using drawField_heap[of font width height field index dh] f by simp
  show ?case
  proof (cases e)
    case None
    then show ?thesis using f h Cons.IH[of "Suc index" dh'] by simp
  next
    case (Some err)
    then show ?thesis using f h by simp
  qed
qed

lemma drawFields_appends:
  "\<exists>ops. drawnText (fst (snd (drawFields font width height fs index dh)))
            = drawnText (fst dh) @ ops"
proof (induction fs arbitrary: index dh)
  case Nil
  show ?case by simp
next
  case (Cons field rest)
  obtain e dh' where f: "drawField font width height field index dh = (e, dh')"
    by (cases "drawField font width height field index dh") auto
  obtain ops1 where o1: "drawnText (fst dh') = drawnText (fst dh) @ ops1"
    using drawField_appends[of font width height field index dh] f by auto
  show ?case
  proof (cases e)
    case None
    obtain ops2 where
      "drawnText (fst (snd (drawFields font width height rest (Suc index) dh')))
         = drawnText (fst dh') @ ops2"
      using Cons.IH[of "Suc index" dh'] by auto
    then show ?thesis using f None o1 by simp
  next
    case (Some err)
    then show ?thesis using f o1 by simp
  qed
qed

lemma drawFields_position:
  assumes "i < length fs"
    and "valueOf (snd dh) (fs ! i) = Some v"
    and "ftype (fs ! i) \<noteq> Checkbox"
    and "fst (drawFields font width height fs index dh) = None"
  shows "\<exists>ops d. drawnText (fst (snd (drawFields font width height fs index dh)))
                    = drawnText (fst dh) @ ops
            \<and> d \<in> set ops
            \<and> (opX d, opY d) = drawPosition width height (hSchema (snd dh)) (fs ! i) (index + i)"
  using assms
proof (induction fs arbitrary: i index dh)
  case Nil
  then show ?case by simp
next
  case (Cons field rest)
  let ?dh' = "snd (drawField font width height field index dh)"
  have ok1: "fst (drawField font width height field index dh) = None"
    and step: "drawFields font width height (field # rest) index dh
                 = drawFields font width height rest (Suc index) ?dh'"
    using drawFields_Cons_None[OF Cons.prems(4)] by simp_all
  have h: "snd ?dh' = snd dh" by (rule drawField_heap)
  show ?case
  proof (cases i)
    case 0
    have v0: "valueOf (snd dh) field = Some v" and t0: "ftype field \<noteq> Checkbox"
      using Cons.prems(2,3) 0 by simp_all
    obtain d where d: "drawnText (fst ?dh') = drawnText (fst dh) @ [d]"
      and p: "(opX d, opY d) = drawPosition width height (hSchema (snd dh)) field index"
      using drawField_position[OF v0 t0 ok1] by auto
    obtain ops2 where
      o2: "drawnText (fst (snd (drawFields font width height rest (Suc index) ?dh')))
             = drawnText (fst ?dh') @ ops2"
      using drawFields_appends[of font width height rest "Suc index" ?dh'] by auto
    have "drawnText (fst (snd (drawFields font width height (field # rest) index dh)))
            = drawnText (fst dh) @ (d # ops2)"
      using step o2 d by simp
    moreover have "d \<in> set (d # ops2)" by simp
    moreover have "(opX d, opY d)
        = drawPosition width height (hSchema (snd dh)) ((field # rest) ! i) (index + i)"
      using p 0 by simp
    ultimately show ?thesis by blast
  next
    case (Suc j)
    have j: "j < length rest" using Cons.prems(1) Suc by simp
    have vj: "valueOf (snd ?dh') (rest ! j) = Some v"
      using Cons.prems(2) Suc h by simp
    have tj: "ftype (rest ! j) \<noteq> Checkbox" using Cons.prems(3) Suc by simp
    have okj: "fst (drawFields font width height rest (Suc index) ?dh') = None"
      using Cons.prems(4) step by simp
    obtain ops d where
      o: "drawnText (fst (snd (drawFields font width height rest (Suc index) ?dh')))
            = drawnText (fst ?dh') @ ops"
      and m: "d \<in> set ops"
      and p: "(opX d, opY d)
                = drawPosition width height (hSchema (snd ?dh')) (rest ! j) (Suc index + j)"
      using Cons.IH[OF j vj tj okj] by blast
    obtain ops1 where o1: "drawnText (fst ?dh') = drawnText (fst dh) @ ops1"
      using drawField_appends[of font width height field index dh] by auto
    have "drawnText (fst (snd (drawFields font width height (field # rest) index dh)))
            = drawnText (fst dh) @ (ops1 @ ops)"
      using step o o1 by simp
    moreover have "d \<in> set (ops1 @ ops)" using m by simp
    moreover have "(opX d, opY d)
        = drawPosition width height (hSchema (snd dh)) ((field # rest) ! i) (index + i)"
      using p Suc h by simp
    ultimately show ?thesis by blast
  qed
qed

lemma fillScannedForm_heap: "snd (snd (fillScannedForm font pdf h)) = h"
  by (simp add: fillScannedForm_def drawFields_heap split: list.splits)

lemma fillScannedForm_position:
  assumes "pageSizes pdf = (tw, th) # rest"
    and "i < length (schemaFields (hSchema h))"
    and "valueOf h (schemaFields (hSchema h) ! i) = Some v"
    and "ftype (schemaFields (hSchema h) ! i) \<noteq> Checkbox"
    and "fst (fillScannedForm font pdf h) = None"
  shows "\<exists>ops d. drawnText (fst (snd (fillScannedForm font pdf h))) = drawnText pdf @ ops
            \<and> d \<in> set ops
            \<and> (opX d, opY d) = drawPosition tw th (hSchema h) (schemaFields (hSchema h) ! i) i"
proof -
  have eq: "fillScannedForm font pdf h
      = drawFields font tw th (schemaFields (hSchema h)) 0 (pdf, h)"
    using assms(1) by (simp add: fillScannedForm_def)
  have ok: "fst (drawFields font tw th (schemaFields (hSchema h)) 0 (pdf, h)) = None"
    using assms(5) eq by simp
  show ?thesis
    using drawFields_position[of i "schemaFields (hSchema h)" "(pdf, h)" v font tw th 0]
      assms(2,3,4) ok eq
    by simp
qed

text \<open>
  A value that the font cannot measure ends the overlay strategy with an error, and
  generateFilledPDF with the error \<open>Failed to generate filled PDF\<close>.
\<close>

lemma drawField_unencodable:
  assumes "valueOf (snd dh) field = Some v"
    and "ftype field \<noteq> Checkbox" and "ftype field \<noteq> Signature"
    and "\<not> canMeasure font v"
  shows "fst (drawField font width height field index dh) = Some EncodingError"
  using assms by (simp add: drawField_def Let_def displayTextOf_def)

lemma drawFields_unencodable:
  assumes "i < length fs"
    and "valueOf (snd dh) (fs ! i) = Some v"
    and "ftype (fs ! i) \<noteq> Checkbox" and "ftype (fs ! i) \<noteq> Signature"
    and "\<not> canMeasure font v"
  shows "fst (drawFields font width height fs index dh) \<noteq> None"
  using assms
proof (induction fs arbitrary: i index dh)
  case Nil
  then show ?case by simp
next
  case (Cons field rest)
  obtain e dh' where f: "drawField font width height field index dh = (e, dh')"
    by (cases "drawField font width height field index dh") auto
  have h: "snd dh' = snd dh"
    using drawField_heap[of font width height field index dh] f by simp
  show ?case
  proof (cases e)
    case (Some err)
    then show ?thesis using f by simp
  next
    case None
    show ?thesis
    proof (cases i)
      case 0
      have "fst (drawField font width height field index dh) = Some EncodingError"
        using drawField_unencodable[of dh field v font width height index] Cons.prems 0
        by simp
      then show ?thesis using f None by simp
    next
      case (Suc j)
      have "fst (drawFields font width height rest (Suc index) dh') \<noteq> None"
        using Cons.IH[of j dh' "Suc index"] Cons.prems Suc h by simp
      then show ?thesis using f None by simp
    qed
  qed
qed

lemma fillScannedForm_unencodable:
  assumes "i < length (schemaFields (hSchema h))"
    and "valueOf h (schemaFields (hSchema h) ! i) = Some v"
    and "ftype (schemaFields (hSchema h) ! i) \<noteq> Checkbox"
    and "ftype (schemaFields (hSchema h) ! i) \<noteq> Signature"
    and "\<not> canMeasure font v"
  shows "fst (fillScannedForm font pdf h) \<noteq> None"
proof (cases "pageSizes pdf")
  case Nil
  then show ?thesis by (simp add: fillScannedForm_def)
next
  case (Cons firstPage pages)
  have "fst (drawFields font (fst firstPage) (snd firstPage) (schemaFields (hSchema h)) 0 (pdf, h))
          \<noteq> None"
    using drawFields_unencodable[of i "schemaFields (hSchema h)" "(pdf, h)" v font] assms
    by simp
  then show ?thesis using Cons by (simp add: fillScannedForm_def)
qed

lemma generateFilledPDF_unencodable:
  assumes "i < length (schemaFields (hSchema h))"
    and "valueOf h (schemaFields (hSchema h) ! i) = Some v"
    and "ftype (schemaFields (hSchema h) ! i) \<noteq> Checkbox"
    and "ftype (schemaFields (hSchema h) ! i) \<noteq> Signature"
    and "\<not> canMeasure font v"
  shows "fst (generateFilledPDF lib font now (ImageFile img) h) = Inl PdfGenerationFailed"
proof (cases img)
  case None
  then show ?thesis by (simp add: generateFilledPDF_def)
next
  case (Some dims)
  obtain e pdf2 h2 where g: "fillScannedForm font (newImagePage (Some dims)) h = (e, pdf2, h2)"
    by (cases "fillScannedForm font (newImagePage (Some dims)) h") auto
  have "e \<noteq> None"
    using fillScannedForm_unencodable[OF assms, of "newImagePage (Some dims)"] g by simp
  then show ?thesis using Some g
    by (auto simp add: generateFilledPDF_def split: option.splits)
qed

lemma exampleFont_tab:
  "fst (fillScannedForm exampleFont exampleScan
          (exampleHeap\<lparr> hValues := [''field_1'' \<mapsto> [CHR 0x09]] \<rparr>)) \<noteq> None"
proof -
  let ?h = "exampleHeap\<lparr> hValues := [''field_1'' \<mapsto> [CHR 0x09]] \<rparr>"
  have s: "schemaFields (hSchema ?h) = [examplePlacedField]"
    by (simp add: exampleHeap_def exampleScannedSchema_def)
  have v: "valueOf ?h examplePlacedField = Some [CHR 0x09]"
    by (simp add: valueOf_def examplePlacedField_def)
  have t: "ftype examplePlacedField = Name" by (simp add: examplePlacedField_def)
  have n: "\<not> canMeasure exampleFont [CHR 0x09]"
    by (simp add: exampleFont_def printable_def lower_chars_def upper_chars_def digit_chars_def)
  show ?thesis
    using fillScannedForm_unencodable[of 0 ?h "[CHR 0x09]" exampleFont exampleScan] s v t n
    by simp
qed

lemma generateFilledPDF_heap: "snd (generateFilledPDF lib font now orig h) = h"
proof -
  have i: "\<And>pdf. snd (snd (fillInteractivePDFForm lib pdf h)) = h"
    by (rule fillInteractivePDFForm_heap)
  have s: "\<And>pdf h'. snd (snd (fillScannedForm font pdf h')) = h'"
    by (rule fillScannedForm_heap)
  show ?thesis
  proof (cases orig)
    case Unreadable
    then show ?thesis by (simp add: generateFilledPDF_def)
  next
    case (PdfFile loaded)
    show ?thesis
    proof (cases loaded)
      case None
      then show ?thesis using PdfFile by (simp add: generateFilledPDF_def)
    next
      case (Some pdf)
      obtain b pdf1 h1 where f: "fillInteractivePDFForm lib pdf h = (b, pdf1, h1)"
        by (cases "fillInteractivePDFForm lib pdf h") auto
      have h1: "h1 = h" using i[of pdf] f by simp
      obtain e pdf2 h2 where g: "fillScannedForm font pdf1 h1 = (e, pdf2, h2)"
        by (cases "fillScannedForm font pdf1 h1") auto
      have h2: "h2 = h" using s[of pdf1 h1] g h1 by simp
      show ?thesis using PdfFile Some f g h1 h2
        by (simp add: generateFilledPDF_def split: option.splits)
    qed
  next
    case (ImageFile img)
    show ?thesis
    proof (cases img)
      case None
      then show ?thesis using ImageFile by (simp add: generateFilledPDF_def)
    next
      case (Some dims)
      obtain e pdf2 h2 where g: "fillScannedForm font (newImagePage (Some dims)) h = (e, pdf2, h2)"
        by (cases "fillScannedForm font (newImagePage (Some dims)) h") auto
      have h2: "h2 = h" using s[of "newImagePage (Some dims)" h] g by simp
      show ?thesis using ImageFile Some g h2
        by (simp add: generateFilledPDF_def split: option.splits)
    qed
  next
    case OtherFile
    obtain e pdf2 h2 where g: "fillScannedForm font (newImagePage None) h = (e, pdf2, h2)"
      by (cases "fillScannedForm font (newImagePage None) h") auto
    have h2: "h2 = h" using s[of "newImagePage None" h] g by simp
    show ?thesis using OtherFile g h2
      by (simp add: generateFilledPDF_def split: option.splits)
  qed
qed

text \<open>
  Claim C9: the fill operation never changes the caller's schema or map of values. After
  generateFilledPDF, whatever the kind of the original file and whether it ends with a
  document or with an error, and after each of its two strategies, fillInteractivePDFForm
  and fillScannedForm, whatever the PDF library does, the schema and the values of the
  heap are what they were before the call.
\<close>

theorem fill_leaves_schema_and_values:
  "hSchema (snd (generateFilledPDF lib font now orig h)) = hSchema h
   \<and> hValues (snd (generateFilledPDF lib font now orig h)) = hValues h
   \<and> hSchema (snd (snd (fillInteractivePDFForm lib pdf h))) = hSchema h
   \<and> hValues (snd (snd (fillInteractivePDFForm lib pdf h))) = hValues h
   \<and> hSchema (snd (snd (fillScannedForm font pdf h))) = hSchema h
   \<and> hValues (snd (snd (fillScannedForm font pdf h))) = hValues h"
  by (simp add: generateFilledPDF_heap fillInteractivePDFForm_heap fillScannedForm_heap)

lemma drawPosition_coordinates:
  "coordinates field = Some c \<Longrightarrow>
     drawPosition tw th schema field index =
       (inputX c * (tw / orElse (imageWidth schema) tw),
        th - inputY c * (th / orElse (imageHeight schema) th))"
  by (simp add: drawPosition_def Let_def)

lemma exampleFont_John: "fst (fillScannedForm exampleFont exampleScan exampleHeap) = None"
proof -
  have p: "printable ''John''"
    by (simp add: printable_def lower_chars_def upper_chars_def digit_chars_def)
  have w: "\<not> widthOfTextAtSize exampleFont ''John'' 10
              > 612 - fst (drawPosition 612 792 exampleScannedSchema examplePlacedField 0) - 50"
    by (simp add: exampleFont_def drawPosition_def examplePlacedField_def
        exampleCoordinates_def exampleScannedSchema_def orElse_def Let_def)
  have d: "displayTextOf exampleFont
             (612 - fst (drawPosition 612 792 exampleScannedSchema examplePlacedField 0) - 50)
             ''John'' = Inr ''John''"
    using w p by (simp add: displayTextOf_def exampleFont_def)
  have v: "valueOf exampleHeap examplePlacedField = Some ''John''"
    by (simp add: valueOf_def exampleHeap_def examplePlacedField_def)
  have s: "hSchema exampleHeap = exampleScannedSchema"
    "schemaFields exampleScannedSchema = [examplePlacedField]"
    "ftype examplePlacedField = Name"
    by (simp_all add: exampleHeap_def exampleScannedSchema_def examplePlacedField_def)
  have f: "fst (drawField exampleFont 612 792 examplePlacedField 0 (exampleScan, exampleHeap)) = None"
    using v s d p by (simp add: drawField_def Let_def drawText_def exampleFont_def)
  have pg: "pageSizes exampleScan = [(612, 792)]"
    by (simp add: exampleScan_def newImagePage_def emptyDoc_def)
  show ?thesis
    using f pg s
    by (cases "drawField exampleFont 612 792 examplePlacedField 0 (exampleScan, exampleHeap)")
       (simp add: fillScannedForm_def split: option.splits)
qed

text \<open>
  Claim C8: for a field that carries coordinates, the position at which its value is drawn
  is the input point scaled by page width / source width and page height / source height,
  with the vertical axis inverted: y = page height - source y * scaleY. For a source of
  1000 by 2000 and a page of 612 by 792, a point with y = 50 goes to
  792 - 50 * (792 / 2000), and x is scaled by 612 / 1000. When the schema has no source
  dimensions the page's own are used and the scale is the identity. The page is the first
  page of the document: when fillScannedForm completes on a document whose first page
  measures tw by th, then for the field at index i of the schema, if it carries the
  coordinates c, has a value and is not a checkbox, one of the drawings that the call has
  added to the document is at the position scaled with tw, th and the source dimensions of
  the schema. (The call does not complete when the font cannot encode a text it has to
  measure or draw.)
\<close>

theorem overlay_position_scaling:
  assumes "coordinates field = Some c"
  shows
   "drawPosition tw th schema field index =
       (inputX c * (tw / orElse (imageWidth schema) tw),
        th - inputY c * (th / orElse (imageHeight schema) th))
    \<and> (imageWidth schema = Some sw \<and> sw \<noteq> 0 \<and> imageHeight schema = Some sh \<and> sh \<noteq> 0 \<longrightarrow>
         drawPosition tw th schema field index = (inputX c * (tw / sw), th - inputY c * (th / sh)))
    \<and> (imageWidth schema = Some 1000 \<and> imageHeight schema = Some 2000 \<and> inputY c = 50 \<longrightarrow>
         drawPosition 612 792 schema field index = (inputX c * (612 / 1000), 792 - 50 * (792 / 2000)))
    \<and> (imageWidth schema0 = None \<and> imageHeight schema0 = None \<and> tw \<noteq> 0 \<and> th \<noteq> 0 \<longrightarrow>
         drawPosition tw th schema0 field index = (inputX c, th - inputY c))
    \<and> (pageSizes pdf = (tw, th) # pages
         \<and> i < length (schemaFields (hSchema h)) \<and> schemaFields (hSchema h) ! i = field
         \<and> valueOf h field = Some v \<and> ftype field \<noteq> Checkbox
         \<and> fst (fillScannedForm font pdf h) = None \<longrightarrow>
         (\<exists>ops d. drawnText (fst (snd (fillScannedForm font pdf h))) = drawnText pdf @ ops
              \<and> d \<in> set ops
              \<and> opX d = inputX c * (tw / orElse (imageWidth (hSchema h)) tw)
              \<and> opY d = th - inputY c * (th / orElse (imageHeight (hSchema h)) th)))"
proof -
  have pos: "\<And>tw th schema index. drawPosition tw th schema field index =
       (inputX c * (tw / orElse (imageWidth schema) tw),
        th - inputY c * (th / orElse (imageHeight schema) th))"
    using assms by (rule drawPosition_coordinates)
  have a: "imageWidth schema = Some sw \<and> sw \<noteq> 0 \<and> imageHeight schema = Some sh \<and> sh \<noteq> 0 \<longrightarrow>
         drawPosition tw th schema field index = (inputX c * (tw / sw), th - inputY c * (th / sh))"
    by (simp add: pos orElse_def)
  have b: "imageWidth schema = Some 1000 \<and> imageHeight schema = Some 2000 \<and> inputY c = 50 \<longrightarrow>
         drawPosition 612 792 schema field index = (inputX c * (612 / 1000), 792 - 50 * (792 / 2000))"
    by (simp add: pos orElse_def)
  have c: "imageWidth schema0 = None \<and> imageHeight schema0 = None \<and> tw \<noteq> 0 \<and> th \<noteq> 0 \<longrightarrow>
         drawPosition tw th schema0 field index = (inputX c, th - inputY c)"
    by (simp add: pos orElse_def)
  have d: "pageSizes pdf = (tw, th) # pages
         \<and> i < length (schemaFields (hSchema h)) \<and> schemaFields (hSchema h) ! i = field
         \<and> valueOf h field = Some v \<and> ftype field \<noteq> Checkbox
         \<and> fst (fillScannedForm font pdf h) = None \<longrightarrow>
         (\<exists>ops d. drawnText (fst (snd (fillScannedForm font pdf h))) = drawnText pdf @ ops
              \<and> d \<in> set ops
              \<and> opX d = inputX c * (tw / orElse (imageWidth (hSchema h)) tw)
              \<and> opY d = th - inputY c * (th / orElse (imageHeight (hSchema h)) th))"
  proof
    assume hyp: "pageSizes pdf = (tw, th) # pages
         \<and> i < length (schemaFields (hSchema h)) \<and> schemaFields (hSchema h) ! i = field
         \<and> valueOf h field = Some v \<and> ftype field \<noteq> Checkbox
         \<and> fst (fillScannedForm font pdf h) = None"
    then obtain ops d where
      o: "drawnText (fst (snd (fillScannedForm font pdf h))) = drawnText pdf @ ops"
      and m: "d \<in> set ops"
      and p: "(opX d, opY d) = drawPosition tw th (hSchema h) field i"
      using fillScannedForm_position[of pdf tw th pages i h v font] by auto
    have "opX d = inputX c * (tw / orElse (imageWidth (hSchema h)) tw)"
      and "opY d = th - inputY c * (th / orElse (imageHeight (hSchema h)) th)"
      using p pos[of tw th "hSchema h" i] by simp_all
    then show "\<exists>ops d. drawnText (fst (snd (fillScannedForm font pdf h))) = drawnText pdf @ ops
              \<and> d \<in> set ops
              \<and> opX d = inputX c * (tw / orElse (imageWidth (hSchema h)) tw)
              \<and> opY d = th - inputY c * (th / orElse (imageHeight (hSchema h)) th)"
      using o m by blast
  qed
  show ?thesis using pos[of tw th schema index] a b c d by blast
qed

theorem overlay_position_scaling_witness:
  "coordinates examplePlacedField = Some exampleCoordinates
   \<and> imageWidth exampleScannedSchema = Some 1000 \<and> imageHeight exampleScannedSchema = Some 2000
   \<and> inputY exampleCoordinates = 50 \<and> inputX exampleCoordinates = 100
   \<and> imageWidth exampleSchema = None \<and> imageHeight exampleSchema = None
   \<and> pageSizes exampleScan = (612, 792) # []
   \<and> hSchema exampleHeap = exampleScannedSchema
   \<and> 0 < length (schemaFields (hSchema exampleHeap))
   \<and> schemaFields (hSchema exampleHeap) ! 0 = examplePlacedField
   \<and> valueOf exampleHeap examplePlacedField = Some ''John''
   \<and> ftype examplePlacedField \<noteq> Checkbox
   \<and> fst (fillScannedForm exampleFont exampleScan exampleHeap) = None
   \<and> drawPosition 612 792 exampleScannedSchema examplePlacedField 0
        = (100 * (612 / 1000), 792 - 50 * (792 / 2000))
   \<and> drawPosition 612 792 exampleSchema examplePlacedField 0 = (100, 792 - 50)
   \<and> (\<exists>ops d. drawnText (fst (snd (fillScannedForm exampleFont exampleScan exampleHeap)))
                 = drawnText exampleScan @ ops
          \<and> d \<in> set ops
          \<and> opX d = 100 * (612 / 1000) \<and> opY d = 792 - 50 * (792 / 2000))"
proof -
  have c: "coordinates examplePlacedField = Some exampleCoordinates"
    by (simp add: examplePlacedField_def)
  have dims: "imageWidth exampleScannedSchema = Some 1000" "imageHeight exampleScannedSchema = Some 2000"
    "imageWidth exampleSchema = None" "imageHeight exampleSchema = None"
    by (simp_all add: exampleScannedSchema_def exampleSchema_def)
  have xy: "inputY exampleCoordinates = 50" "inputX exampleCoordinates = 100"
    by (simp_all add: exampleCoordinates_def)
  have pg: "pageSizes exampleScan = (612, 792) # []"
    by (simp add: exampleScan_def newImagePage_def emptyDoc_def)
  have s: "hSchema exampleHeap = exampleScannedSchema"
    by (simp add: exampleHeap_def)
  have fs: "0 < length (schemaFields (hSchema exampleHeap))"
    "schemaFields (hSchema exampleHeap) ! 0 = examplePlacedField"
    by (simp_all add: exampleHeap_def exampleScannedSchema_def)
  have v: "valueOf exampleHeap examplePlacedField = Some ''John''"
    by (simp add: valueOf_def exampleHeap_def examplePlacedField_def)
  have t: "ftype examplePlacedField \<noteq> Checkbox" by (simp add: examplePlacedField_def)
  have ok: "fst (fillScannedForm exampleFont exampleScan exampleHeap) = None"
    by (rule exampleFont_John)
  note inst = overlay_position_scaling [where field = examplePlacedField
      and c = exampleCoordinates and schema = exampleScannedSchema
      and ?schema0.0 = exampleSchema and tw = 612 and th = 792 and sw = 1000 and sh = 2000
      and pdf = exampleScan and pages = "[]" and i = 0
      and h = exampleHeap and v = "''John''" and font = exampleFont and index = 0, OF c]
  have p1: "drawPosition 612 792 exampleScannedSchema examplePlacedField 0
        = (100 * (612 / 1000), 792 - 50 * (792 / 2000))"
    using inst dims xy by (simp add: orElse_def)
  have p2: "drawPosition 612 792 exampleSchema examplePlacedField 0 = (100, 792 - 50)"
    using inst dims xy by (simp add: orElse_def)
  have p3: "\<exists>ops d. drawnText (fst (snd (fillScannedForm exampleFont exampleScan exampleHeap)))
                 = drawnText exampleScan @ ops
          \<and> d \<in> set ops
          \<and> opX d = 100 * (612 / 1000) \<and> opY d = 792 - 50 * (792 / 2000)"
    using inst pg fs v t ok s dims xy by (simp add: orElse_def)
  show ?thesis using c dims xy pg s fs v t ok p1 p2 p3 by blast
qed

subsection \<open>Field ids\<close>

lemma digitValue_digitChar_all: "\<forall>d\<in>set [0..<10]. digitValue digit_chars (digitChar d) = d"
  by code_simp

lemma digitValue_digitChar: "d < 10 \<Longrightarrow> digitValue digit_chars (digitChar d) = d"
  using digitValue_digitChar_all by simp

lemma digitsValue_snoc:
  "digitsValue (s @ [c]) = 10 * digitsValue s + digitValue digit_chars c"
  by (simp add: digitsValue_def)

lemma digitsValue_showNat: "digitsValue (showNat n) = n"
proof (induction n rule: showNat.induct)
  case (1 n)
  show ?case
  proof (cases "n < 10")
    case True
    then have "showNat n = [digitChar n]" by (simp add: showNat.simps)
    then show ?thesis using True digitsValue_snoc[of "[]" "digitChar n"]
      by (simp add: digitValue_digitChar digitsValue_def)
  next
    case False
    then have e: "showNat n = showNat (n div 10) @ [digitChar (n mod 10)]"
      by (subst showNat.simps) simp
    have "digitsValue (showNat (n div 10)) = n div 10" using "1.IH" False by simp
    then show ?thesis
      by (simp add: e digitsValue_snoc digitValue_digitChar)
  qed
qed

lemma showNat_inj: "showNat m = showNat n \<Longrightarrow> m = n"
  by (metis digitsValue_showNat)

lemma fieldIds_Suc: "fieldIds (Suc n) = fieldIds n @ [''field_'' @ showNat (Suc n)]"
  by (simp add: fieldIds_def)

lemma length_fieldIds [simp]: "length (fieldIds n) = n"
  by (simp add: fieldIds_def)

lemma distinct_fieldIds: "distinct (fieldIds n)"
  unfolding fieldIds_def
  by (rule iffD2[OF distinct_map]) (auto simp: inj_on_def dest: showNat_inj)

lemma fieldIds_5:
  "fieldIds 5 = [''field_1'', ''field_2'', ''field_3'', ''field_4'', ''field_5'']"
  by code_simp

lemma idsOk_push:
  "idsOk (dfields st) \<Longrightarrow> fid f = nextId st \<Longrightarrow> idsOk (dfields (pushField f lbl st))"
  by (simp add: idsOk_def pushField_def nextId_def fieldIds_Suc)

lemma strategy1Step_ids:
  "strategy1Step words line index st = Inr st' \<Longrightarrow> idsOk (dfields st) \<Longrightarrow> idsOk (dfields st')"
  by (auto simp: strategy1Step_def Let_def idsOk_push split: if_splits list.splits sum.splits)

lemma strategy1_ids:
  "strategy1 words lines index st = Inr st' \<Longrightarrow> idsOk (dfields st) \<Longrightarrow> idsOk (dfields st')"
proof (induction lines arbitrary: index st)
  case Nil
  then show ?case by simp
next
  case (Cons line rest)
  then show ?case by (auto split: sum.splits dest: strategy1Step_ids)
qed

lemma strategy2Patterns_ids:
  "strategy2Patterns ps line index st = Inr st' \<Longrightarrow> idsOk (dfields st) \<Longrightarrow> idsOk (dfields st')"
proof (induction ps)
  case Nil
  then show ?case by simp
next
  case (Cons tp rest)
  then show ?case
    by (auto simp: Let_def idsOk_push split: if_splits option.splits sum.splits)
qed

lemma strategy2Step_ids:
  "strategy2Step line index st = Inr st' \<Longrightarrow> idsOk (dfields st) \<Longrightarrow> idsOk (dfields st')"
  by (auto simp: strategy2Step_def split: if_splits dest: strategy2Patterns_ids)

lemma strategy2_ids:
  "strategy2 lines index st = Inr st' \<Longrightarrow> idsOk (dfields st) \<Longrightarrow> idsOk (dfields st')"
proof (induction lines arbitrary: index st)
  case Nil
  then show ?case by simp
next
  case (Cons line rest)
  then show ?case by (auto split: sum.splits dest: strategy2Step_ids)
qed

lemma detectPasses_ids: "detectPasses txt words = Inr fs \<Longrightarrow> idsOk fs"
proof -
  assume a: "detectPasses txt words = Inr fs"
  have init: "idsOk (dfields \<lparr> dfields = [], foundFields = [] \<rparr>)"
    by (simp add: idsOk_def fieldIds_def)
  show ?thesis
    using a strategy1_ids[OF _ init] strategy2_ids
    by (auto simp: detectPasses_def Let_def split: sum.splits if_splits)
qed

lemma genericFields_ids: "idsOk genericFields"
proof -
  have l: "length genericFields = 5" by (simp add: genericFields_def)
  have m: "map fid genericFields = [''field_1'', ''field_2'', ''field_3'', ''field_4'', ''field_5'']"
    by (simp add: genericFields_def genericField_def)
  show ?thesis unfolding idsOk_def l m fieldIds_5 ..
qed

lemma detectFormFields_ids: "detectFormFields txt words = Inr fs \<Longrightarrow> idsOk fs"
  by (auto simp: detectFormFields_def genericFields_ids split: sum.splits if_splits
      dest: detectPasses_ids)

lemma length_mapIndexed [simp]: "length (mapIndexed f i xs) = length xs"
  by (induction xs arbitrary: i) simp_all

lemma upt_0_Suc_map: "[0..<Suc n] = 0 # map Suc [0..<n]"
  by (simp add: upt_conv_Cons map_Suc_upt del: upt_Suc)

lemma fid_nativeField: "fid (nativeField i c) = ''field_'' @ showNat (Suc i)"
  by (simp add: nativeField_def)

lemma mapIndexed_nativeField_ids:
  "map fid (mapIndexed nativeField i cs) =
     map (\<lambda>j. ''field_'' @ showNat (Suc (i + j))) [0..<length cs]"
proof (induction cs arbitrary: i)
  case Nil
  then show ?case by simp
next
  case (Cons c cs)
  have "map fid (mapIndexed nativeField i (c # cs)) =
      (''field_'' @ showNat (Suc i)) # map (\<lambda>j. ''field_'' @ showNat (Suc (Suc i + j))) [0..<length cs]"
    using Cons.IH[of "Suc i"] by (simp add: fid_nativeField)
  also have "\<dots> = map (\<lambda>j. ''field_'' @ showNat (Suc (i + j))) (0 # map Suc [0..<length cs])"
    by (simp add: comp_def)
  also have "\<dots> = map (\<lambda>j. ''field_'' @ showNat (Suc (i + j))) [0..<length (c # cs)]"
    by (simp only: upt_0_Suc_map length_Cons)
  finally show ?case .
qed

lemma extractPDFFormFields_ids: "extractPDFFormFields loaded = Some fs \<Longrightarrow> idsOk fs"
  using mapIndexed_nativeField_ids[of 0]
  by (auto simp: extractPDFFormFields_def idsOk_def fieldIds_def split: sum.splits if_splits)

lemma processForm_ids: "processForm up = Inr schema \<Longrightarrow> idsOk (schemaFields schema)"
  by (auto simp: processForm_def split: if_splits option.splits list.splits sum.splits
      dest: detectFormFields_ids extractPDFFormFields_ids)

subsection \<open>The secondary pass\<close>

text \<open>
  The pieces of a line are never an empty array, so every call of findCoordinatesForLabel
  from the secondary pass throws: the pass ends with the state it started from, or with
  a TypeError.
\<close>

lemma rxSplitLoop_nonempty: "rxSplitLoop ci r cur p s \<noteq> []"
  by (induction ci r cur p s rule: rxSplitLoop.induct) (auto split: list.splits)

lemma rxSplit_spaces_nonempty: "rxSplit False spacesRx s \<noteq> []"
  by (simp add: rxSplit_def rxSplitLoop_nonempty spacesRx_def)

lemma findCoordinates_strings_throw:
  assumes "ws \<noteq> []"
  shows "findCoordinatesForLabel lbl (map StrWord ws) = Inl TypeError"
proof -
  obtain w ws' where ws: "ws = w # ws'" using assms by (cases ws) auto
  obtain lw lws where lw: "rxSplit False spacesRx (toLowerCase lbl) = lw # lws"
    using rxSplit_spaces_nonempty[of "toLowerCase lbl"] by (cases "rxSplit False spacesRx (toLowerCase lbl)") auto
  show ?thesis by (simp add: findCoordinatesForLabel_def ws lw)
qed

lemma strategy2Patterns_adds_nothing:
  "strategy2Patterns ps line index st = Inr st' \<Longrightarrow> st' = st"
proof (induction ps)
  case Nil
  then show ?case by simp
next
  case (Cons tp rest)
  have throw: "\<And>lbl. findCoordinatesForLabel lbl (map StrWord (rxSplit False spacesRx line)) = Inl TypeError"
    by (rule findCoordinates_strings_throw) (rule rxSplit_spaces_nonempty)
  from Cons show ?case
    by (auto simp: Let_def throw split: if_splits option.splits)
qed

lemma strategy2_adds_nothing: "strategy2 lines index st = Inr st' \<Longrightarrow> st' = st"
proof (induction lines arbitrary: index st)
  case Nil
  then show ?case by simp
next
  case (Cons line rest)
  then show ?case
    by (auto simp: strategy2Step_def split: sum.splits if_splits dest: strategy2Patterns_adds_nothing)
qed

subsection \<open>Field indicators of the primary pass\<close>

lemma rxm_Chr_as_Cls: "rxm False (Chr c) = rxm False (Cls [c])"
  by simp








subsection \<open>Detection on concrete texts\<close>

lemma findCoordinates_no_words: "findCoordinatesForLabel lbl [] = Inr None"
  by (simp add: findCoordinatesForLabel_def)

lemma showNat_1: "showNat (Suc 0) = ''1''" by code_simp

lemma showNat_2: "showNat (Suc (Suc 0)) = ''2''" by code_simp

lemma blank_lines: "textLines exampleBlankText = [''ab'', ''--'']"
  by (simp add: exampleBlankText_def textLines_def trim_def isSpace_def ws_chars_def)
lemma blank_ab: "\<not> hasFieldIndicator ''ab''" "\<not> hasFieldEnding ''ab''" by code_simp+
lemma blank_dashes: "hasFieldEnding ''--''" by code_simp
lemma blank_split: "rxSplit False indicatorRx ''--'' = [''--'']"
  by (simp add: rxSplit_def indicatorRx_def indicatorChars_def ws_chars_def)
lemma blank_clean:
  "rxRemoveFirst False asterisksRx (rxRemoveFirst False numberingRx (trim ''--'')) = []"
  by code_simp

lemma blank_passes: "detectPasses exampleBlankText [] = Inr []"
  using blank_clean
  by (simp add: detectPasses_def blank_lines strategy1Step_def blank_ab blank_dashes blank_split
      strategy2Step_def Let_def)

text \<open>
  Claim C2: for every text, with or without word boxes, for which the two detection passes
  end with no field, the extractor returns the fixed fallback schema: five fields of the
  types name, email, phone, address and date in this order, with the ids field_1 to
  field_5.
\<close>

theorem fallback_when_nothing_detected:
  "detectPasses txt words = Inr [] \<longrightarrow>
     detectFormFields txt words = Inr genericFields
     \<and> length genericFields = 5
     \<and> map ftype genericFields = [Name, Email, Phone, Address, Date]
     \<and> map fid genericFields = [''field_1'', ''field_2'', ''field_3'', ''field_4'', ''field_5'']
     \<and> map label genericFields
          = [''Full Name'', ''Email Address'', ''Phone Number'', ''Address'', ''Date'']"
  by (simp add: detectFormFields_def genericFields_def genericField_def)

theorem fallback_when_nothing_detected_witness:
  "detectPasses exampleBlankText [] = Inr []
   \<and> detectFormFields exampleBlankText [] = Inr genericFields
   \<and> map ftype genericFields = [Name, Email, Phone, Address, Date]"
  using blank_passes fallback_when_nothing_detected [of exampleBlankText "[]"]
  by simp

lemma nameLine_ind: "hasFieldIndicator ''Name:''" by code_simp
lemma nameLine_split: "rxSplit False indicatorRx ''Name:'' = [''Name'', []]"
  by (simp add: rxSplit_def indicatorRx_def indicatorChars_def ws_chars_def)
lemma nameLine_clean:
  "rxRemoveFirst False asterisksRx (rxRemoveFirst False numberingRx (trim ''Name'')) = ''Name''"
  by code_simp
lemma nameLine_skip: "\<not> rxTest True skipWords ''Name''" by code_simp
lemma nameLine_name: "rxTest True namePattern ''Name''" by code_simp
lemma nameLine_opt: "\<not> rxTest True optionalRx ''Name:''" by code_simp
lemma nameLine_lower: "toLowerCase ''Name'' = ''name''" by code_simp

lemma nameLine_step1:
  "strategy1Step [] ''Name:'' 0 \<lparr> dfields = [], foundFields = [] \<rparr>
     = Inr \<lparr> dfields = [exampleNameField], foundFields = [''name''] \<rparr>"
  using nameLine_clean
  by (simp add: strategy1Step_def nameLine_ind nameLine_split nameLine_skip nameLine_name
      nameLine_opt nameLine_lower Let_def classify_def fieldPatterns_def
      findCoordinates_no_words pushField_def nextId_def showNat_1 exampleNameField_def)

lemma nameLine_test: "rxTest True namePattern ''Name:''" by code_simp
lemma nameLine_match: "rxMatch0 True namePattern ''Name:'' = Some ''Name''" by code_simp
lemma nameLine_words: "rxSplit False spacesRx ''Name:'' = [''Name:'']"
  by (simp add: rxSplit_def spacesRx_def ws_chars_def)
lemma nameLine_label: "strategy2Label namePattern ''Name:'' ''Name'' [''Name:''] = ''Name''"
  by code_simp
lemma nameLine_others: "\<forall>tp\<in>set (tl fieldPatterns). \<not> rxTest True (snd tp) ''Name:''"
  by code_simp

lemma strategy2Patterns_no_match:
  "\<forall>tp\<in>set ps. \<not> rxTest True (snd tp) line \<Longrightarrow> strategy2Patterns ps line index st = Inr st"
  by (induction ps) simp_all

lemma nameLine_secondary:
  "strategy2Patterns fieldPatterns ''Name:'' 0
      \<lparr> dfields = [exampleNameField], foundFields = [''name''] \<rparr>
     = Inr \<lparr> dfields = [exampleNameField], foundFields = [''name''] \<rparr>"
proof -
  have split: "fieldPatterns = (Name, namePattern) # tl fieldPatterns"
    by (simp add: fieldPatterns_def)
  have rest: "strategy2Patterns (tl fieldPatterns) ''Name:'' 0
      \<lparr> dfields = [exampleNameField], foundFields = [''name''] \<rparr>
     = Inr \<lparr> dfields = [exampleNameField], foundFields = [''name''] \<rparr>"
    by (rule strategy2Patterns_no_match) (rule nameLine_others)
  show ?thesis
    by (subst split)
       (simp add: nameLine_test nameLine_match nameLine_words nameLine_label nameLine_lower
          rest Let_def)
qed

lemma nameLine_detect: "detectFormFields ''Name:'' [] = Inr [exampleNameField]"
proof -
  have lines: "textLines ''Name:'' = [''Name:'']"
    by (simp add: textLines_def trim_def isSpace_def ws_chars_def)
  show ?thesis
    by (simp add: detectFormFields_def detectPasses_def lines nameLine_step1 strategy2Step_def
        nameLine_secondary Let_def)
qed

lemma scenario_lines:
  "textLines scenarioText = [''Full Name: ____'', ''Email Address: ____'']"
  by (simp add: scenarioText_def textLines_def trim_def isSpace_def ws_chars_def)

lemma scenario_ind1: "hasFieldIndicator ''Full Name: ____''" by code_simp
lemma scenario_split1:
  "rxSplit False indicatorRx ''Full Name: ____'' = [''Full'', ''Name'', [], [], [], [], [], []]"
  by (simp add: rxSplit_def indicatorRx_def indicatorChars_def ws_chars_def)
lemma scenario_clean1:
  "rxRemoveFirst False asterisksRx (rxRemoveFirst False numberingRx (trim ''Full'')) = ''Full''"
  by code_simp
lemma scenario_skip1: "\<not> rxTest True skipWords ''Full''" by code_simp
lemma scenario_name1a: "\<not> rxTest True namePattern ''Full''" by code_simp
lemma scenario_name1b: "rxTest True namePattern ''Full Name: ____''" by code_simp
lemma scenario_opt1: "\<not> rxTest True optionalRx ''Full Name: ____''" by code_simp
lemma scenario_lower1: "toLowerCase ''Full'' = ''full''" by code_simp

lemma scenario_ind2: "hasFieldIndicator ''Email Address: ____''" by code_simp
lemma scenario_split2:
  "rxSplit False indicatorRx ''Email Address: ____'' = [''Email'', ''Address'', [], [], [], [], [], []]"
  by (simp add: rxSplit_def indicatorRx_def indicatorChars_def ws_chars_def)
lemma scenario_clean2:
  "rxRemoveFirst False asterisksRx (rxRemoveFirst False numberingRx (trim ''Email'')) = ''Email''"
  by code_simp
lemma scenario_skip2: "\<not> rxTest True skipWords ''Email''" by code_simp
lemma scenario_name2a: "\<not> rxTest True namePattern ''Email''" by code_simp
lemma scenario_name2b: "\<not> rxTest True namePattern ''Email Address: ____''" by code_simp
lemma scenario_email2: "rxTest True emailPattern ''Email''" by code_simp
lemma scenario_opt2: "\<not> rxTest True optionalRx ''Email Address: ____''" by code_simp
lemma scenario_lower2: "toLowerCase ''Email'' = ''email''" by code_simp



lemma scenario_step1:
  "strategy1Step [] ''Full Name: ____'' 0 \<lparr> dfields = [], foundFields = [] \<rparr>
     = Inr \<lparr> dfields = [scenarioField1], foundFields = [''full''] \<rparr>"
  using scenario_clean1
  by (simp add: strategy1Step_def scenario_ind1 scenario_split1 scenario_skip1
      scenario_name1a scenario_name1b scenario_opt1 scenario_lower1 Let_def
      classify_def fieldPatterns_def findCoordinates_no_words pushField_def nextId_def
      showNat_1 scenarioField1_def)

lemma scenario_step2:
  "strategy1Step [] ''Email Address: ____'' (Suc 0) \<lparr> dfields = [scenarioField1], foundFields = [''full''] \<rparr>
     = Inr \<lparr> dfields = [scenarioField1, scenarioField2], foundFields = [''full'', ''email''] \<rparr>"
  using scenario_clean2
  by (simp add: strategy1Step_def scenario_ind2 scenario_split2 scenario_skip2
      scenario_name2a scenario_name2b scenario_email2 scenario_opt2 scenario_lower2 Let_def
      classify_def fieldPatterns_def findCoordinates_no_words pushField_def nextId_def
      showNat_2 scenarioField2_def)

lemma scenario_match: "rxMatch0 True namePattern ''Full Name: ____'' = Some ''Full Name''"
  by code_simp
lemma scenario_words: "rxSplit False spacesRx ''Full Name: ____'' = [''Full'', ''Name:'', ''____'']"
  by (simp add: rxSplit_def spacesRx_def ws_chars_def)
lemma scenario_label:
  "strategy2Label namePattern ''Full Name: ____'' ''Full Name'' [''Full'', ''Name:'', ''____''] = ''Name:''"
  by code_simp
lemma scenario_lower3: "toLowerCase ''Name:'' = ''name:''" by code_simp
lemma scenario_throw:
  "findCoordinatesForLabel ''Name:'' [StrWord ''Full'', StrWord ''Name:'', StrWord ''____'']
     = Inl TypeError"
  by code_simp

lemma scenario_secondary:
  "strategy2Patterns fieldPatterns ''Full Name: ____'' 0
     \<lparr> dfields = [scenarioField1, scenarioField2], foundFields = [''full'', ''email''] \<rparr> = Inl TypeError"
  by (simp add: fieldPatterns_def scenario_name1b scenario_match scenario_words scenario_label
      scenario_lower3 scenario_throw Let_def)

text \<open>
  Claim C7 says that for the text "Full Name: ____" / "Email Address: ____" without word
  boxes the extractor returns exactly two fields, of types name and email, with the labels
  "Full Name" and "Email Address". On this text the primary pass finds two fields of these
  types, but with the labels "Full" and "Email" (white space is a member of the character
  class at which the line is split), and the secondary pass then throws a TypeError: the
  label "Name:" is new, and findCoordinatesForLabel is handed the words of the line, which
  are strings without a \<open>text\<close> property. The extractor returns nothing.
\<close>

theorem detect_scenario_throws:
  "strategy1 [] (textLines scenarioText) 0 \<lparr> dfields = [], foundFields = [] \<rparr>
     = Inr \<lparr> dfields = [scenarioField1, scenarioField2], foundFields = [''full'', ''email''] \<rparr>
   \<and> label scenarioField1 = ''Full'' \<and> label scenarioField2 = ''Email''
   \<and> detectFormFields scenarioText [] = Inl TypeError"
proof -
  have primary:
    "strategy1 [] (textLines scenarioText) 0 \<lparr> dfields = [], foundFields = [] \<rparr>
       = Inr \<lparr> dfields = [scenarioField1, scenarioField2], foundFields = [''full'', ''email''] \<rparr>"
    by (simp add: scenario_lines scenario_step1 scenario_step2)
  have secondary:
    "strategy2 (textLines scenarioText) 0
        \<lparr> dfields = [scenarioField1, scenarioField2], foundFields = [''full'', ''email''] \<rparr>
       = Inl TypeError"
    by (simp add: scenario_lines strategy2Step_def scenario_secondary)
  have "detectFormFields scenarioText [] = Inl TypeError"
    by (simp add: detectFormFields_def detectPasses_def primary secondary Let_def)
  then show ?thesis
    using primary by (simp add: scenarioField1_def scenarioField2_def)
qed




text \<open>
  Claim C3: whatever the extractor returns has the ids field_1, ..., field_n in the order
  of the list, without gaps and without duplicates: the list of detectFormFields (text
  heuristics or fallback), the list of extractPDFFormFields (native controls), and the
  schema of processForm, which chooses between them.
\<close>

theorem extractor_ids_contiguous:
  "(detectFormFields txt words = Inr fs \<longrightarrow>
      map fid fs = fieldIds (length fs) \<and> distinct (map fid fs))
   \<and> (extractPDFFormFields loaded = Some fs' \<longrightarrow>
      map fid fs' = fieldIds (length fs') \<and> distinct (map fid fs'))
   \<and> (processForm up = Inr schema \<longrightarrow>
      map fid (schemaFields schema) = fieldIds (length (schemaFields schema))
      \<and> distinct (map fid (schemaFields schema)))
   \<and> map fid genericFields = fieldIds 5
   \<and> fieldIds 5 = [''field_1'', ''field_2'', ''field_3'', ''field_4'', ''field_5'']"
proof (intro conjI impI)
  assume "detectFormFields txt words = Inr fs"
  then have "idsOk fs" by (rule detectFormFields_ids)
  then show "map fid fs = fieldIds (length fs)" by (simp add: idsOk_def)
  then show "distinct (map fid fs)" by (simp add: distinct_fieldIds)
next
  assume "extractPDFFormFields loaded = Some fs'"
  then have "idsOk fs'" by (rule extractPDFFormFields_ids)
  then show "map fid fs' = fieldIds (length fs')" by (simp add: idsOk_def)
  then show "distinct (map fid fs')" by (simp add: distinct_fieldIds)
next
  assume "processForm up = Inr schema"
  then have "idsOk (schemaFields schema)" by (rule processForm_ids)
  then show "map fid (schemaFields schema) = fieldIds (length (schemaFields schema))"
    by (simp add: idsOk_def)
  then show "distinct (map fid (schemaFields schema))" by (simp add: distinct_fieldIds)
next
  have "length genericFields = 5" by (simp add: genericFields_def)
  then show "map fid genericFields = fieldIds 5"
    using genericFields_ids by (simp add: idsOk_def)
  show "fieldIds 5 = [''field_1'', ''field_2'', ''field_3'', ''field_4'', ''field_5'']"
    by (rule fieldIds_5)
qed

lemma exampleUpload_schema:
  "processForm exampleUpload =
     Inr \<lparr> extractedText = ''Name:'', schemaFields = [exampleNameField], totalFields = 1,
           imageWidth = Some 1000, imageHeight = Some 2000, isPDFForm = False \<rparr>"
proof -
  have m: "\<not> strIncludes ''image/png'' ''pdf''" "strIncludes ''image/png'' ''image''"
    by code_simp+
  show ?thesis
    by (simp add: processForm_def exampleUpload_def m nameLine_detect)
qed

lemma exampleControl_fields:
  "extractPDFFormFields (Inr [exampleControl, exampleControl])
     = Some [nativeField 0 exampleControl, nativeField 1 exampleControl]"
  by (simp add: extractPDFFormFields_def)

theorem extractor_ids_contiguous_witness:
  "detectFormFields ''Name:'' [] = Inr [exampleNameField]
   \<and> map fid [exampleNameField] = fieldIds (length [exampleNameField])
   \<and> extractPDFFormFields (Inr [exampleControl, exampleControl])
        = Some [nativeField 0 exampleControl, nativeField 1 exampleControl]
   \<and> map fid [nativeField 0 exampleControl, nativeField 1 exampleControl]
        = fieldIds (length [nativeField 0 exampleControl, nativeField 1 exampleControl])
   \<and> distinct (map fid [nativeField 0 exampleControl, nativeField 1 exampleControl])
   \<and> processForm exampleUpload =
        Inr \<lparr> extractedText = ''Name:'', schemaFields = [exampleNameField], totalFields = 1,
              imageWidth = Some 1000, imageHeight = Some 2000, isPDFForm = False \<rparr>"
proof -
  note inst = extractor_ids_contiguous [of "''Name:''" "[]" "[exampleNameField]"
      "Inr [exampleControl, exampleControl]"
      "[nativeField 0 exampleControl, nativeField 1 exampleControl]"
      exampleUpload
      "\<lparr> extractedText = ''Name:'', schemaFields = [exampleNameField], totalFields = 1,
         imageWidth = Some 1000, imageHeight = Some 2000, isPDFForm = False \<rparr>"]
  show ?thesis
    using inst nameLine_detect exampleControl_fields exampleUpload_schema by blast
qed

end
